theory Spec2Isabelle
  imports Complex_Main "HOL-Library.Multiset" "HOL-Library.List_Lexorder" "HOL-Library.Char_ord"
begin

section \<open>Numbers of the analysis script\<close>

text \<open>
  \<^verbatim>\<open>analyze_data.py\<close> computes with NumPy double-precision numbers.  They are modelled
  as exact real numbers extended by the three special values of IEEE arithmetic that the
  script can produce and print: \<open>NaN\<close> and the two infinities.  The operations below
  are the exact ones; the rounding of a result to a double is the separate function
  \<open>round_double\<close>, applied where a property is about the exact value printed (the
  achievement rates) and left out elsewhere.  The two signed zeros are one value: a zero
  divisor behaves as \<open>+0.0\<close>.  NumPy arithmetic never raises on these values (it warns
  and returns \<open>nan\<close> or \<open>inf\<close>), so the operations are total.
\<close>

datatype fl = Fin real | PInf | NInf | NaN

fun fneg :: "fl \<Rightarrow> fl" where
  "fneg (Fin x) = Fin (- x)"
| "fneg PInf = NInf"
| "fneg NInf = PInf"
| "fneg NaN = NaN"

fun fabs :: "fl \<Rightarrow> fl" where
  "fabs (Fin x) = Fin \<bar>x\<bar>"
| "fabs PInf = PInf"
| "fabs NInf = PInf"
| "fabs NaN = NaN"

fun fadd :: "fl \<Rightarrow> fl \<Rightarrow> fl" where
  "fadd (Fin x) (Fin y) = Fin (x + y)"
| "fadd NaN _ = NaN"
| "fadd _ NaN = NaN"
| "fadd PInf NInf = NaN"
| "fadd NInf PInf = NaN"
| "fadd PInf _ = PInf"
| "fadd NInf _ = NInf"
| "fadd _ PInf = PInf"
| "fadd _ NInf = NInf"

definition fsub :: "fl \<Rightarrow> fl \<Rightarrow> fl" where
  "fsub a b = fadd a (fneg b)"

text \<open>The sign of a product or quotient with an infinite operand.\<close>

definition signed_inf :: "bool \<Rightarrow> fl" where
  "signed_inf positive = (if positive then PInf else NInf)"

fun fmul :: "fl \<Rightarrow> fl \<Rightarrow> fl" where
  "fmul (Fin x) (Fin y) = Fin (x * y)"
| "fmul NaN _ = NaN"
| "fmul _ NaN = NaN"
| "fmul PInf (Fin y) = (if y = 0 then NaN else signed_inf (0 < y))"
| "fmul NInf (Fin y) = (if y = 0 then NaN else signed_inf (y < 0))"
| "fmul (Fin x) PInf = (if x = 0 then NaN else signed_inf (0 < x))"
| "fmul (Fin x) NInf = (if x = 0 then NaN else signed_inf (x < 0))"
| "fmul PInf PInf = PInf"
| "fmul NInf NInf = PInf"
| "fmul PInf NInf = NInf"
| "fmul NInf PInf = NInf"

fun fdiv :: "fl \<Rightarrow> fl \<Rightarrow> fl" where
  "fdiv (Fin x) (Fin y) =
     (if y \<noteq> 0 then Fin (x / y)
      else if x = 0 then NaN
      else signed_inf (0 < x))"
| "fdiv NaN _ = NaN"
| "fdiv _ NaN = NaN"
| "fdiv (Fin x) PInf = Fin 0"
| "fdiv (Fin x) NInf = Fin 0"
| "fdiv PInf (Fin y) = signed_inf (0 \<le> y)"
| "fdiv NInf (Fin y) = signed_inf (y < 0)"
| "fdiv PInf PInf = NaN"
| "fdiv PInf NInf = NaN"
| "fdiv NInf PInf = NaN"
| "fdiv NInf NInf = NaN"

fun fsqrt :: "fl \<Rightarrow> fl" where
  "fsqrt (Fin x) = (if x < 0 then NaN else Fin (sqrt x))"
| "fsqrt PInf = PInf"
| "fsqrt NInf = NaN"
| "fsqrt NaN = NaN"

text \<open>\<^verbatim>\<open>x ** 2\<close> on a NumPy double.\<close>

definition fsquare :: "fl \<Rightarrow> fl" where
  "fsquare a = fmul a a"

text \<open>
  Rounding to the nearest double, ties to the even significand: a double is an integer
  multiple of the spacing \<open>quantum\<close>, which is \<open>2\<close> to the power of the binary
  exponent less 52 (the exponent is at least \<open>-1022\<close>, below which doubles are
  subnormal); a result of magnitude \<open>2\<^sup>1\<^sup>0\<^sup>2\<^sup>4\<close> or more overflows to an infinity.
\<close>

definition round_half_even :: "real \<Rightarrow> int" where
  "round_half_even r =
     (if r - real_of_int \<lfloor>r\<rfloor> < 1 / 2 then \<lfloor>r\<rfloor>
      else if 1 / 2 < r - real_of_int \<lfloor>r\<rfloor> then \<lfloor>r\<rfloor> + 1
      else if even \<lfloor>r\<rfloor> then \<lfloor>r\<rfloor> else \<lfloor>r\<rfloor> + 1)"

definition exponent :: "real \<Rightarrow> int" where
  "exponent x = max \<lfloor>log 2 \<bar>x\<bar>\<rfloor> (- 1022)"

definition quantum :: "real \<Rightarrow> real" where
  "quantum x = 2 powi (exponent x - 52)"

definition round_double :: "real \<Rightarrow> fl" where
  "round_double x =
     (if x = 0 then Fin 0
      else if 2 ^ 1024 \<le> \<bar>real_of_int (round_half_even (x / quantum x)) * quantum x\<bar>
      then signed_inf (0 < x)
      else Fin (real_of_int (round_half_even (x / quantum x)) * quantum x))"

fun rnd :: "fl \<Rightarrow> fl" where
  "rnd (Fin x) = round_double x"
| "rnd PInf = PInf"
| "rnd NInf = NInf"
| "rnd NaN = NaN"

text \<open>A Python \<^verbatim>\<open>int\<close> (such as \<^verbatim>\<open>len(x) - 1\<close>) used in double arithmetic.\<close>

definition of_pyint :: "int \<Rightarrow> fl" where
  "of_pyint i = Fin (real_of_int i)"

text \<open>Python's \<^verbatim>\<open>len\<close>, an unbounded integer.\<close>

definition len :: "'a list \<Rightarrow> int" where
  "len xs = int (length xs)"

section \<open>Series reductions of the data-frame library\<close>

text \<open>
  A numeric column (a pandas \<^verbatim>\<open>Series\<close>) is a list of real numbers: every entry is a
  finite number, none is missing.  The reductions below are the library's, which is not
  part of the repository; each is written out from its documented behaviour.
\<close>

text \<open>
  Modelled from the spec: \<^verbatim>\<open>Series.mean()\<close>, the arithmetic mean of the entries; the
  mean of an empty column is \<open>NaN\<close>.
\<close>

definition mean :: "real list \<Rightarrow> fl" where
  "mean xs = (if xs = [] then NaN else Fin (sum_list xs / real (length xs)))"

text \<open>
  Modelled from the spec: \<^verbatim>\<open>Series.var()\<close> and \<^verbatim>\<open>Series.std()\<close> with the library's
  default \<^verbatim>\<open>ddof=1\<close>: the squared deviations from the mean are summed and divided by
  \<open>n - 1\<close>; with fewer than two entries the result is \<open>NaN\<close> (section 4.1 of the
  specification: a single row yields an undefined standard deviation).
\<close>

definition var :: "real list \<Rightarrow> fl" where
  "var xs =
     (if length xs \<le> 1 then NaN
      else Fin ((\<Sum>x\<leftarrow>xs. (sum_list xs / real (length xs) - x)\<^sup>2) / (real (length xs) - 1)))"

definition std :: "real list \<Rightarrow> fl" where
  "std xs = fsqrt (var xs)"

section \<open>Hypothesis testing: effect size\<close>

text \<open>
  Lines 91 and 99 of the script, the same expression on two pairs of columns:
  \<^verbatim>\<open>(b.mean() - w.mean()) / np.sqrt(((len(b)-1)*b.std()**2 + (len(w)-1)*w.std()**2) / (len(b) + len(w) - 2))\<close>
\<close>

definition cohens_d :: "real list \<Rightarrow> real list \<Rightarrow> fl" where
  "cohens_d baseline wim =
     fdiv (fsub (mean baseline) (mean wim))
       (fsqrt
         (fdiv
           (fadd (fmul (of_pyint (len baseline - 1)) (fsquare (std baseline)))
                 (fmul (of_pyint (len wim - 1)) (fsquare (std wim))))
           (of_pyint (len baseline + len wim - 2))))"

text \<open>
  The specification's formula, over the reals: the sample mean, the sample standard
  deviation \<open>s\<close> with \<open>n - 1\<close> in the denominator, the pooled standard deviation and
  Cohen's \<open>d\<close>.
\<close>

definition sample_mean :: "real list \<Rightarrow> real" where
  "sample_mean xs = sum_list xs / real (length xs)"

definition sample_sd :: "real list \<Rightarrow> real" where
  "sample_sd xs = sqrt ((\<Sum>x\<leftarrow>xs. (x - sample_mean xs)\<^sup>2) / (real (length xs) - 1))"

definition pooled_sd :: "real list \<Rightarrow> real list \<Rightarrow> real" where
  "pooled_sd xs ys =
     sqrt (((real (length xs) - 1) * (sample_sd xs)\<^sup>2 + (real (length ys) - 1) * (sample_sd ys)\<^sup>2)
           / (real (length xs) + real (length ys) - 2))"

definition cohens_d_formula :: "real list \<Rightarrow> real list \<Rightarrow> real" where
  "cohens_d_formula xs ys = (sample_mean xs - sample_mean ys) / pooled_sd xs ys"

section \<open>The three data sets\<close>

text \<open>
  One record per row of each CSV file, with the columns the script reads (section 3 of
  the specification).  A data frame is the list of its rows in file order.
\<close>

record tech_row =
  session_id :: int
  scenario :: string
  timestamp_sec :: real
  duration_min :: real
  network_latency_ms :: real
  frame_rate_fps :: real
  calibration_error_mm :: real
  headset_temp_c :: real

record collab_row =
  interface_type :: string
  task_completion_time_sec :: real
  coordination_errors :: real
  spatial_awareness_score :: real
  task_success :: real

record calib_row =
  timestamp_min :: real
  total_error_mm :: real

text \<open>
  \<^verbatim>\<open>df[df[c] == v]\<close> keeps the rows whose mask entry is true, in order;
  \<^verbatim>\<open>df[c]\<close> is the column of all rows.
\<close>

definition select_rows :: "('r \<Rightarrow> bool) \<Rightarrow> 'r list \<Rightarrow> 'r list" where
  "select_rows keep df = filter keep df"

definition column :: "('r \<Rightarrow> 'a) \<Rightarrow> 'r list \<Rightarrow> 'a list" where
  "column c df = map c df"

section \<open>Achievement rates (lines 46 and 54)\<close>

text \<open>
  \<^verbatim>\<open>(col <= threshold).mean() * 100\<close>: the comparison gives a Boolean column, whose mean
  counts \<^verbatim>\<open>True\<close> as 1 and \<^verbatim>\<open>False\<close> as 0.  The count and the number of rows are
  integers below \<open>2\<^sup>5\<^sup>3\<close> for every frame that fits in memory, so they are doubles as
  they are; their quotient is rounded to a double, and so is its product with 100.
\<close>

definition bool_mean :: "bool list \<Rightarrow> fl" where
  "bool_mean bs = rnd (mean (map (\<lambda>b. if b then 1 else 0) bs))"

definition achievement_le :: "real list \<Rightarrow> real \<Rightarrow> fl" where
  "achievement_le col threshold =
     rnd (fmul (bool_mean (map (\<lambda>x. x \<le> threshold) col)) (of_pyint 100))"

definition achievement_ge :: "real list \<Rightarrow> real \<Rightarrow> fl" where
  "achievement_ge col threshold =
     rnd (fmul (bool_mean (map (\<lambda>x. threshold \<le> x) col)) (of_pyint 100))"

definition latency_achievement :: "tech_row list \<Rightarrow> fl" where
  "latency_achievement tech_perf = achievement_le (column network_latency_ms tech_perf) 75"

definition fps_achievement :: "tech_row list \<Rightarrow> fl" where
  "fps_achievement tech_perf = achievement_ge (column frame_rate_fps tech_perf) 90"

section \<open>Collaboration effectiveness (lines 88 to 102)\<close>

definition baseline_times :: "collab_row list \<Rightarrow> real list" where
  "baseline_times collab_perf =
     column task_completion_time_sec (select_rows (\<lambda>r. interface_type r = ''baseline'') collab_perf)"

definition wim_times :: "collab_row list \<Rightarrow> real list" where
  "wim_times collab_perf =
     column task_completion_time_sec (select_rows (\<lambda>r. interface_type r = ''wim'') collab_perf)"

definition baseline_errors :: "collab_row list \<Rightarrow> real list" where
  "baseline_errors collab_perf =
     column coordination_errors (select_rows (\<lambda>r. interface_type r = ''baseline'') collab_perf)"

definition wim_errors :: "collab_row list \<Rightarrow> real list" where
  "wim_errors collab_perf =
     column coordination_errors (select_rows (\<lambda>r. interface_type r = ''wim'') collab_perf)"

text \<open>
  Lines 93 and 101:
  \<^verbatim>\<open>((baseline.mean() - wim.mean()) / baseline.mean()) * 100\<close>
\<close>

definition improvement_pct :: "real list \<Rightarrow> real list \<Rightarrow> fl" where
  "improvement_pct baseline wim =
     fmul (fdiv (fsub (mean baseline) (mean wim)) (mean baseline)) (of_pyint 100)"

text \<open>
  Modelled from the spec: \<^verbatim>\<open>scipy.stats.ttest_ind(a, b)\<close>, which is not part of the
  repository.  With the library's default it is the two-sample test with pooled variance
  (section 4.2 and the open question of section 9 of the specification):
  \<open>t = (mean a - mean b) / sqrt (s\<^sub>p\<^sup>2 (1/n\<^sub>1 + 1/n\<^sub>2))\<close> with
  \<open>s\<^sub>p\<^sup>2 = ((n\<^sub>1 - 1) v\<^sub>1 + (n\<^sub>2 - 1) v\<^sub>2) / (n\<^sub>1 + n\<^sub>2 - 2)\<close>, and the two-sided
  p-value \<open>2 (1 - F\<^sub>d\<^sub>f \<bar>t\<bar>)\<close> for the distribution function \<open>F\<close> of Student's t with
  \<open>df = n\<^sub>1 + n\<^sub>2 - 2\<close> degrees of freedom.  The distribution function itself is not
  modelled: a p-value is represented by the two numbers it is computed from, \<open>\<bar>t\<bar>\<close>
  and \<open>df\<close>, and is \<open>NaN\<close> when \<open>\<bar>t\<bar>\<close> is.  The library checks no sample size and
  raises on no numeric sample: for a sample of one value it takes the variance \<open>v\<close> to
  be 0 (the sum of squared deviations of that sample is 0), and with an empty sample the
  statistic is \<open>NaN\<close>.
\<close>

datatype p_value = Two_sided fl fl

definition pooled_term_variance :: "real list \<Rightarrow> fl" where
  "pooled_term_variance xs = (if len xs = 1 then Fin 0 else var xs)"

definition ttest_ind :: "real list \<Rightarrow> real list \<Rightarrow> fl \<times> p_value" where
  "ttest_ind a b =
     (let n1 = len a; n2 = len b;
          v1 = pooled_term_variance a; v2 = pooled_term_variance b;
          df = of_pyint (n1 + n2 - 2);
          svar = fdiv (fadd (fmul (of_pyint (n1 - 1)) v1) (fmul (of_pyint (n2 - 1)) v2)) df;
          denom = fsqrt (fmul svar (fadd (fdiv (Fin 1) (of_pyint n1)) (fdiv (Fin 1) (of_pyint n2))));
          t = fdiv (fsub (mean a) (mean b)) denom
      in (t, Two_sided (fabs t) df))"

text \<open>
  The exceptions that the modelled statements of the script can raise.
\<close>

datatype error =
  IndexError | KeyError | NameError | AttributeError | TypeError | ZeroDivisionError

text \<open>
  Line 91 with the types of its operands.  Python's \<^verbatim>\<open>/\<close> raises
  \<^verbatim>\<open>ZeroDivisionError\<close> when it divides a Python number by zero; when either operand is a
  NumPy double the division is NumPy's, which returns \<open>nan\<close> or \<open>inf\<close>.  The divisor
  \<^verbatim>\<open>len(b) + len(w) - 2\<close> is a Python integer and is 0 for two samples of one value, and
  for an empty sample and one of two values.  \<^verbatim>\<open>Series.mean()\<close> and \<^verbatim>\<open>Series.std()\<close>
  return NumPy doubles, \<^verbatim>\<open>len\<close> a Python integer, \<^verbatim>\<open>np.sqrt\<close> a NumPy double.
\<close>

datatype pynum = Py_int int | Py_float fl | Np_float fl

fun value_of :: "pynum \<Rightarrow> fl" where
  "value_of (Py_int i) = of_pyint i"
| "value_of (Py_float x) = x"
| "value_of (Np_float x) = x"

fun is_numpy :: "pynum \<Rightarrow> bool" where
  "is_numpy (Np_float x) = True"
| "is_numpy (Py_int i) = False"
| "is_numpy (Py_float x) = False"

definition float_result :: "pynum \<Rightarrow> pynum \<Rightarrow> fl \<Rightarrow> pynum" where
  "float_result a b x = (if is_numpy a \<or> is_numpy b then Np_float x else Py_float x)"

fun py_add :: "pynum \<Rightarrow> pynum \<Rightarrow> pynum" where
  "py_add (Py_int i) (Py_int j) = Py_int (i + j)"
| "py_add a b = float_result a b (fadd (value_of a) (value_of b))"

fun py_sub :: "pynum \<Rightarrow> pynum \<Rightarrow> pynum" where
  "py_sub (Py_int i) (Py_int j) = Py_int (i - j)"
| "py_sub a b = float_result a b (fsub (value_of a) (value_of b))"

fun py_mul :: "pynum \<Rightarrow> pynum \<Rightarrow> pynum" where
  "py_mul (Py_int i) (Py_int j) = Py_int (i * j)"
| "py_mul a b = float_result a b (fmul (value_of a) (value_of b))"

definition py_truediv :: "pynum \<Rightarrow> pynum \<Rightarrow> error + pynum" where
  "py_truediv a b =
     (if is_numpy a \<or> is_numpy b then Inr (Np_float (fdiv (value_of a) (value_of b)))
      else if value_of b = Fin 0 then Inl ZeroDivisionError
      else Inr (Py_float (fdiv (value_of a) (value_of b))))"

definition np_square :: "pynum \<Rightarrow> pynum" where
  "np_square a = py_mul a a"

definition np_sqrt :: "pynum \<Rightarrow> pynum" where
  "np_sqrt a = Np_float (fsqrt (value_of a))"

definition cohens_d_line :: "real list \<Rightarrow> real list \<Rightarrow> error + pynum" where
  "cohens_d_line baseline wim =
     (case py_truediv
             (py_add (py_mul (Py_int (len baseline - 1)) (np_square (Np_float (std baseline))))
                     (py_mul (Py_int (len wim - 1)) (np_square (Np_float (std wim)))))
             (Py_int (len baseline + len wim - 2)) of
        Inl e \<Rightarrow> Inl e
      | Inr pooled \<Rightarrow>
          py_truediv (py_sub (Np_float (mean baseline)) (Np_float (mean wim))) (np_sqrt pooled))"

text \<open>
  The hypothesis-testing step of the script, lines 90 and 91 (and 98 and 99): the library
  test, then the effect size.  Nothing in these lines checks a sample size; an exception
  is the \<open>Inl\<close> branch of the result.
\<close>

definition hypothesis_test :: "real list \<Rightarrow> real list \<Rightarrow> error + (fl \<times> p_value \<times> fl)" where
  "hypothesis_test baseline wim =
     (let (t_stat, p_value) = ttest_ind baseline wim
      in case cohens_d_line baseline wim of
           Inl e \<Rightarrow> Inl e
         | Inr d \<Rightarrow> Inr (t_stat, p_value, value_of d))"

section \<open>Performance drift by session (lines 122 to 145)\<close>

text \<open>
  \<^verbatim>\<open>sorted(tech_perf['session_id'].unique())\<close>: the distinct session identifiers in
  ascending order.
\<close>

definition sorted_unique :: "int list \<Rightarrow> int list" where
  "sorted_unique ids = sort (remdups ids)"

text \<open>
  Modelled from the spec: \<^verbatim>\<open>DataFrame.sort_values(col)\<close> returns the rows in ascending
  order of the key column.  Rows with equal keys keep their relative order here; the
  library leaves their order to its sorting algorithm.
\<close>

definition sort_values :: "('r \<Rightarrow> real) \<Rightarrow> 'r list \<Rightarrow> 'r list" where
  "sort_values c df = sort_key c df"

text \<open>
  Positional access \<^verbatim>\<open>.iloc[i]\<close>: a negative position counts from the end, and a
  position outside the frame raises \<^verbatim>\<open>IndexError\<close>.
\<close>

definition iloc :: "'r list \<Rightarrow> int \<Rightarrow> error + 'r" where
  "iloc df i =
     (if 0 \<le> i \<and> i < len df then Inr (df ! nat i)
      else if i < 0 \<and> - len df \<le> i then Inr (df ! nat (len df + i))
      else Inl IndexError)"

text \<open>What one pass of the loop body computes and prints for a session.\<close>

record session_drift =
  sd_session :: int
  sd_scenario :: string
  sd_duration :: real
  fps_drift :: fl
  fps_drift_per_min :: fl
  calib_drift :: fl
  calib_drift_per_min :: fl
  latency_jitter :: fl
  fps_final :: real
  fps_final_pass :: bool

definition session_data :: "tech_row list \<Rightarrow> int \<Rightarrow> tech_row list" where
  "session_data tech_perf session =
     sort_values timestamp_sec (select_rows (\<lambda>r. session_id r = session) tech_perf)"

text \<open>Lines 126 to 145, on the sorted rows \<^verbatim>\<open>session_data\<close> of the session.\<close>

definition session_metrics :: "int \<Rightarrow> tech_row list \<Rightarrow> error + session_drift" where
  "session_metrics session sdata =
     (case iloc sdata 0 of Inl e \<Rightarrow> Inl e | Inr first_row \<Rightarrow>
      case iloc sdata (- 1) of Inl e \<Rightarrow> Inl e | Inr last_row \<Rightarrow>
        let fps_initial = frame_rate_fps first_row;
            fps_fin = frame_rate_fps last_row;
            fps_d = fsub (Fin fps_initial) (Fin fps_fin);
            calib_initial = calibration_error_mm first_row;
            calib_final = calibration_error_mm last_row;
            calib_d = fsub (Fin calib_final) (Fin calib_initial);
            jitter = std (column network_latency_ms sdata)
        in case iloc (column duration_min sdata) 0 of Inl e \<Rightarrow> Inl e | Inr duration \<Rightarrow>
           case iloc (column scenario sdata) 0 of Inl e \<Rightarrow> Inl e | Inr scen \<Rightarrow>
             Inr \<lparr> sd_session = session, sd_scenario = scen, sd_duration = duration,
                   fps_drift = fps_d, fps_drift_per_min = fdiv fps_d (Fin duration),
                   calib_drift = calib_d, calib_drift_per_min = fdiv calib_d (Fin duration),
                   latency_jitter = jitter, fps_final = fps_fin,
                   fps_final_pass = (85 \<le> fps_fin) \<rparr>)"

definition drift_of_session :: "tech_row list \<Rightarrow> int \<Rightarrow> error + session_drift" where
  "drift_of_session tech_perf session = session_metrics session (session_data tech_perf session)"

text \<open>The loop: one report per session, in order; an exception ends it.\<close>

fun drift_loop :: "tech_row list \<Rightarrow> int list \<Rightarrow> error + session_drift list" where
  "drift_loop tech_perf [] = Inr []"
| "drift_loop tech_perf (session # rest) =
     (case drift_of_session tech_perf session of
        Inl e \<Rightarrow> Inl e
      | Inr r \<Rightarrow> (case drift_loop tech_perf rest of Inl e \<Rightarrow> Inl e | Inr rs \<Rightarrow> Inr (r # rs)))"

definition performance_drift :: "tech_row list \<Rightarrow> error + session_drift list" where
  "performance_drift tech_perf = drift_loop tech_perf (sorted_unique (column session_id tech_perf))"

section \<open>Correlation analysis (lines 149 to 151)\<close>

text \<open>
  Modelled from the spec: \<^verbatim>\<open>Series.corr\<close>, the Pearson correlation coefficient of two
  columns of the same frame, as the library computes it: the covariance with \<open>n - 1\<close> in
  the denominator, divided by the standard deviation of each column in turn, and clipped
  to the interval from \<open>-1\<close> to \<open>1\<close>.  The correlation of empty columns is \<open>NaN\<close>.
\<close>

definition cov :: "real list \<Rightarrow> real list \<Rightarrow> fl" where
  "cov xs ys =
     (let mx = sum_list xs / real (length xs);
          my = sum_list ys / real (length ys);
          dot = (\<Sum>(x, y)\<leftarrow>zip xs ys. (x - mx) * (y - my))
      in fmul (Fin dot) (fdiv (Fin 1) (Fin (real (length xs) - 1))))"

fun fclip :: "fl \<Rightarrow> fl" where
  "fclip (Fin x) = Fin (max (- 1) (min 1 x))"
| "fclip PInf = Fin 1"
| "fclip NInf = Fin (- 1)"
| "fclip NaN = NaN"

definition corr :: "real list \<Rightarrow> real list \<Rightarrow> fl" where
  "corr xs ys =
     (if xs = [] then NaN
      else fclip (fdiv (fdiv (cov xs ys) (fsqrt (cov xs xs))) (fsqrt (cov ys ys))))"

definition temp_fps_corr :: "tech_row list \<Rightarrow> fl" where
  "temp_fps_corr tech_perf = corr (column headset_temp_c tech_perf) (column frame_rate_fps tech_perf)"

definition temp_calib_corr :: "tech_row list \<Rightarrow> fl" where
  "temp_calib_corr tech_perf =
     corr (column headset_temp_c tech_perf) (column calibration_error_mm tech_perf)"

definition temp_latency_corr :: "tech_row list \<Rightarrow> fl" where
  "temp_latency_corr tech_perf =
     corr (column headset_temp_c tech_perf) (column network_latency_ms tech_perf)"

text \<open>
  The textbook coefficient, over the reals: the sum of the products of the deviations
  from the two means, divided by the square root of the product of the two sums of
  squared deviations.
\<close>

definition pearson_r :: "real list \<Rightarrow> real list \<Rightarrow> real" where
  "pearson_r xs ys =
     (\<Sum>(x, y)\<leftarrow>zip xs ys. (x - sample_mean xs) * (y - sample_mean ys))
     / sqrt ((\<Sum>x\<leftarrow>xs. (x - sample_mean xs)\<^sup>2) * (\<Sum>y\<leftarrow>ys. (y - sample_mean ys)\<^sup>2))"

definition constant_column :: "real list \<Rightarrow> bool" where
  "constant_column xs = (\<forall>x\<in>set xs. \<forall>y\<in>set xs. x = y)"

section \<open>Summary table (lines 310 to 324)\<close>

text \<open>
  The dictionary \<^verbatim>\<open>summary_data\<close> has four columns of five entries.  Python strings are
  written as their UTF-8 bytes.  A formatted number of the \<open>Achieved\<close> column is kept as
  the number and the text around it, not as its decimal digits.
\<close>

datatype achieved =
    Mean_pm_std fl fl string
  | P_equals p_value
  | Literal string

record summary =
  requirement :: "string list"
  target :: "string list"
  achieved_col :: "achieved list"
  status :: "string list"

definition check_mark :: string where
  "check_mark = [CHR 0xE2, CHR 0x9C, CHR 0x93]"

definition le_sign :: string where
  "le_sign = [CHR 0xE2, CHR 0x89, CHR 0xA4]"

definition ge_sign :: string where
  "ge_sign = [CHR 0xE2, CHR 0x89, CHR 0xA5]"

definition initial_calib :: "calib_row list \<Rightarrow> real list" where
  "initial_calib calib_acc = column total_error_mm (select_rows (\<lambda>r. timestamp_min r = 0) calib_acc)"

definition summary_data :: "real list \<Rightarrow> tech_row list \<Rightarrow> p_value \<Rightarrow> summary" where
  "summary_data init_calib tech_perf p_val =
     \<lparr> requirement = [''Calibration'', ''Network Latency'', ''Frame Rate'', ''WIM Effectiveness'',
                       ''Session Stability''],
       target = [''<10mm'', le_sign @ ''75ms'', ge_sign @ ''90fps'', ''Significant'', ''30-60min''],
       achieved_col =
         [Mean_pm_std (mean init_calib) (std init_calib) ''mm'',
          Mean_pm_std (mean (column network_latency_ms tech_perf))
                      (std (column network_latency_ms tech_perf)) ''ms'',
          Mean_pm_std (mean (column frame_rate_fps tech_perf))
                      (std (column frame_rate_fps tech_perf)) ''fps'',
          P_equals p_val,
          Literal ''45min optimal''],
       status = [check_mark @ '' PASS'', check_mark @ '' PASS'', check_mark @ '' PASS'',
                 check_mark @ '' PASS'', check_mark @ '' PASS''] \<rparr>"

text \<open>
  The table as a function of the three data sets: \<^verbatim>\<open>initial_calib\<close> is bound on line 62
  and \<^verbatim>\<open>p_value\<close> on line 90.
\<close>

definition summary_table :: "tech_row list \<Rightarrow> collab_row list \<Rightarrow> calib_row list \<Rightarrow> summary" where
  "summary_table tech_perf collab_perf calib_acc =
     summary_data (initial_calib calib_acc) tech_perf
       (snd (ttest_ind (baseline_times collab_perf) (wim_times collab_perf)))"

section \<open>The run of the script over an object store\<close>

text \<open>
  Data frames are objects: a variable holds a reference, and a library call either reads
  an object, creates a new one, or changes one in place.  The store maps addresses to
  frames; the script's module-level variables that outlive a section are fields of the
  state, unbound (\<open>None\<close>) until assigned.  A statement returns a value or raises, and
  leaves a state behind in both cases.
\<close>

type_synonym addr = nat

datatype frame =
    Tech_frame "tech_row list"
  | Collab_frame "collab_row list"
  | Calib_frame "calib_row list"
  | Summary_frame summary

text \<open>
  What a \<^verbatim>\<open>print\<close> statement receives, without the literal text of its format string,
  and what a plotting call receives, without styling.
\<close>

datatype out = Num fl | Count int | Text string | P_val p_value | Flag bool | Cells "out list"

datatype plot =
    Line out "real list" "real list"
  | Bars "fl list" "fl list"
  | Scatter "real list" "real list" "real list"
  | Legend out

record script_state =
  heap :: "addr \<Rightarrow> frame option"
  next_addr :: addr
  tech_perf_ref :: "addr option"
  collab_perf_ref :: "addr option"
  calib_acc_ref :: "addr option"
  initial_calib_var :: "real list option"
  baseline_times_var :: "real list option"
  wim_times_var :: "real list option"
  p_value_var :: "p_value option"
  temp_fps_corr_var :: "fl option"
  temp_calib_corr_var :: "fl option"
  printed :: "out list"
  figures :: "(string \<times> plot list) list"

definition start_state :: script_state where
  "start_state =
     \<lparr> heap = (\<lambda>a. None), next_addr = 0, tech_perf_ref = None, collab_perf_ref = None,
       calib_acc_ref = None, initial_calib_var = None, baseline_times_var = None,
       wim_times_var = None, p_value_var = None, temp_fps_corr_var = None,
       temp_calib_corr_var = None, printed = [], figures = [] \<rparr>"

type_synonym 'a prog = "script_state \<Rightarrow> (error + 'a) \<times> script_state"

definition ret :: "'a \<Rightarrow> 'a prog" where
  "ret x s = (Inr x, s)"

definition lift :: "error + 'a \<Rightarrow> 'a prog" where
  "lift r s = (r, s)"

definition then_do :: "'a prog \<Rightarrow> ('a \<Rightarrow> 'b prog) \<Rightarrow> 'b prog" where
  "then_do m f s = (case m s of (Inl e, s') \<Rightarrow> (Inl e, s') | (Inr x, s') \<Rightarrow> f x s')"

fun do_all :: "unit prog list \<Rightarrow> unit prog" where
  "do_all [] = ret ()"
| "do_all (m # ms) = then_do m (\<lambda>_. do_all ms)"

fun for_each :: "'a list \<Rightarrow> ('a \<Rightarrow> unit prog) \<Rightarrow> unit prog" where
  "for_each [] body = ret ()"
| "for_each (x # xs) body = then_do (body x) (\<lambda>_. for_each xs body)"

text \<open>Reading a variable that is not bound raises \<^verbatim>\<open>NameError\<close>.\<close>

definition read_var :: "(script_state \<Rightarrow> 'a option) \<Rightarrow> 'a prog" where
  "read_var v s = (case v s of None \<Rightarrow> (Inl NameError, s) | Some x \<Rightarrow> (Inr x, s))"

definition emit :: "out \<Rightarrow> unit prog" where
  "emit x s = (Inr (), s\<lparr> printed := printed s @ [x] \<rparr>)"

definition savefig :: "string \<Rightarrow> plot list \<Rightarrow> unit prog" where
  "savefig file plots s = (Inr (), s\<lparr> figures := figures s @ [(file, plots)] \<rparr>)"

subsection \<open>Library calls on frames\<close>

text \<open>
  Modelled from the spec: the data-frame library's calls as they act on the store.
  \<^verbatim>\<open>read_csv\<close>, Boolean-mask indexing \<^verbatim>\<open>df[mask]\<close>, \<^verbatim>\<open>sort_values\<close> with its default
  \<^verbatim>\<open>inplace=False\<close> and the \<^verbatim>\<open>DataFrame\<close> constructor each return a new object;
  \<^verbatim>\<open>sort_values(inplace=True)\<close> overwrites the object it is called on and returns
  \<^verbatim>\<open>None\<close>.  Column selection and the reductions read the rows.  A frame without the
  columns asked for raises \<^verbatim>\<open>KeyError\<close>.
\<close>

definition alloc :: "frame \<Rightarrow> addr prog" where
  "alloc f s =
     (Inr (next_addr s), s\<lparr> heap := (heap s)(next_addr s \<mapsto> f), next_addr := Suc (next_addr s) \<rparr>)"

definition overwrite :: "addr \<Rightarrow> frame \<Rightarrow> unit prog" where
  "overwrite a f s = (Inr (), s\<lparr> heap := (heap s)(a \<mapsto> f) \<rparr>)"

definition tech_rows :: "addr \<Rightarrow> tech_row list prog" where
  "tech_rows a s = (case heap s a of Some (Tech_frame rows) \<Rightarrow> (Inr rows, s) | _ \<Rightarrow> (Inl KeyError, s))"

definition collab_rows :: "addr \<Rightarrow> collab_row list prog" where
  "collab_rows a s =
     (case heap s a of Some (Collab_frame rows) \<Rightarrow> (Inr rows, s) | _ \<Rightarrow> (Inl KeyError, s))"

definition calib_rows :: "addr \<Rightarrow> calib_row list prog" where
  "calib_rows a s =
     (case heap s a of Some (Calib_frame rows) \<Rightarrow> (Inr rows, s) | _ \<Rightarrow> (Inl KeyError, s))"

definition mask_tech :: "addr \<Rightarrow> (tech_row \<Rightarrow> bool) \<Rightarrow> addr prog" where
  "mask_tech a keep = then_do (tech_rows a) (\<lambda>rows. alloc (Tech_frame (select_rows keep rows)))"

definition mask_collab :: "addr \<Rightarrow> (collab_row \<Rightarrow> bool) \<Rightarrow> addr prog" where
  "mask_collab a keep = then_do (collab_rows a) (\<lambda>rows. alloc (Collab_frame (select_rows keep rows)))"

definition mask_calib :: "addr \<Rightarrow> (calib_row \<Rightarrow> bool) \<Rightarrow> addr prog" where
  "mask_calib a keep = then_do (calib_rows a) (\<lambda>rows. alloc (Calib_frame (select_rows keep rows)))"

definition sort_values_frame :: "addr \<Rightarrow> (tech_row \<Rightarrow> real) \<Rightarrow> bool \<Rightarrow> addr option prog" where
  "sort_values_frame a c inplace =
     then_do (tech_rows a) (\<lambda>rows.
       if inplace
       then then_do (overwrite a (Tech_frame (sort_values c rows))) (\<lambda>_. ret None)
       else then_do (alloc (Tech_frame (sort_values c rows))) (\<lambda>a'. ret (Some a')))"

text \<open>A method called on \<^verbatim>\<open>None\<close> raises \<^verbatim>\<open>AttributeError\<close>.\<close>

definition deref :: "addr option \<Rightarrow> addr prog" where
  "deref r = (case r of None \<Rightarrow> lift (Inl AttributeError) | Some a \<Rightarrow> ret a)"

text \<open>
  Modelled from the spec: the smallest and the largest entry of a column (\<open>NaN\<close> when it
  is empty), and \<^verbatim>\<open>groupby(key)[col].agg(['mean', 'std', 'min', 'max'])\<close>: one row per
  distinct key, in ascending order of the key.
\<close>

definition smin :: "real list \<Rightarrow> fl" where
  "smin xs = (if xs = [] then NaN else Fin (Min (set xs)))"

definition smax :: "real list \<Rightarrow> fl" where
  "smax xs = (if xs = [] then NaN else Fin (Max (set xs)))"

definition group_keys :: "('r \<Rightarrow> 'k::linorder) \<Rightarrow> 'r list \<Rightarrow> 'k list" where
  "group_keys key df = sort (remdups (column key df))"

definition agg_stats :: "('k \<Rightarrow> out) \<Rightarrow> ('r \<Rightarrow> 'k::linorder) \<Rightarrow> ('r \<Rightarrow> real) \<Rightarrow> 'r list \<Rightarrow> out" where
  "agg_stats show_key key c df =
     Cells (map (\<lambda>k. let g = column c (select_rows (\<lambda>r. key r = k) df)
                     in Cells [show_key k, Num (mean g), Num (std g), Num (smin g), Num (smax g)])
                (group_keys key df))"

subsection \<open>Assignments\<close>

text \<open>Lines 25 to 27 bind the three frame variables; nothing later assigns to them.\<close>

definition set_tech_perf :: "addr \<Rightarrow> unit prog" where
  "set_tech_perf a s = (Inr (), s\<lparr> tech_perf_ref := Some a \<rparr>)"

definition set_collab_perf :: "addr \<Rightarrow> unit prog" where
  "set_collab_perf a s = (Inr (), s\<lparr> collab_perf_ref := Some a \<rparr>)"

definition set_calib_acc :: "addr \<Rightarrow> unit prog" where
  "set_calib_acc a s = (Inr (), s\<lparr> calib_acc_ref := Some a \<rparr>)"

definition set_initial_calib :: "real list \<Rightarrow> unit prog" where
  "set_initial_calib v s = (Inr (), s\<lparr> initial_calib_var := Some v \<rparr>)"

definition set_baseline_times :: "real list \<Rightarrow> unit prog" where
  "set_baseline_times v s = (Inr (), s\<lparr> baseline_times_var := Some v \<rparr>)"

definition set_wim_times :: "real list \<Rightarrow> unit prog" where
  "set_wim_times v s = (Inr (), s\<lparr> wim_times_var := Some v \<rparr>)"

definition set_p_value :: "p_value \<Rightarrow> unit prog" where
  "set_p_value v s = (Inr (), s\<lparr> p_value_var := Some v \<rparr>)"

definition set_temp_fps_corr :: "fl \<Rightarrow> unit prog" where
  "set_temp_fps_corr v s = (Inr (), s\<lparr> temp_fps_corr_var := Some v \<rparr>)"

definition set_temp_calib_corr :: "fl \<Rightarrow> unit prog" where
  "set_temp_calib_corr v s = (Inr (), s\<lparr> temp_calib_corr_var := Some v \<rparr>)"

subsection \<open>The sections of the script\<close>

text \<open>
  Each section reads a frame variable once where the source reads it several times with
  no statement in between that could write.  Lines 25 to 27; the files are given as the
  rows parsed from them.
\<close>

definition load :: "tech_row list \<Rightarrow> collab_row list \<Rightarrow> calib_row list \<Rightarrow> unit prog" where
  "load tech_csv collab_csv calib_csv =
     then_do (alloc (Tech_frame tech_csv)) (\<lambda>a.
     then_do (set_tech_perf a) (\<lambda>_.
     then_do (alloc (Collab_frame collab_csv)) (\<lambda>b.
     then_do (set_collab_perf b) (\<lambda>_.
     then_do (alloc (Calib_frame calib_csv)) (\<lambda>c.
     set_calib_acc c)))))"

text \<open>Lines 29 to 31.\<close>

definition report_sizes :: "unit prog" where
  "report_sizes =
     then_do (read_var tech_perf_ref) (\<lambda>tech. then_do (tech_rows tech) (\<lambda>tp.
     then_do (read_var collab_perf_ref) (\<lambda>collab. then_do (collab_rows collab) (\<lambda>cp.
     then_do (read_var calib_acc_ref) (\<lambda>calib. then_do (calib_rows calib) (\<lambda>ca.
       do_all
         [emit (Cells [Count (len tp), Count (len (remdups (column session_id tp)))]),
          emit (Count (len cp)),
          emit (Count (len ca))]))))))"

text \<open>Lines 42 to 66.\<close>

definition calib_at :: "addr \<Rightarrow> real \<Rightarrow> real list prog" where
  "calib_at calib minute =
     then_do (mask_calib calib (\<lambda>r. timestamp_min r = minute)) (\<lambda>a.
     then_do (calib_rows a) (\<lambda>rows. ret (column total_error_mm rows)))"

definition technical_benchmarks :: "unit prog" where
  "technical_benchmarks =
     then_do (read_var tech_perf_ref) (\<lambda>tech. then_do (tech_rows tech) (\<lambda>tp.
     then_do (read_var calib_acc_ref) (\<lambda>calib. then_do (calib_rows calib) (\<lambda>ca.
     then_do (do_all
         [emit (agg_stats Text scenario network_latency_ms tp),
          emit (Num (latency_achievement tp)),
          emit (Cells [Num (mean (column network_latency_ms tp)),
                       Num (std (column network_latency_ms tp))]),
          emit (agg_stats Text scenario frame_rate_fps tp),
          emit (Num (fps_achievement tp)),
          emit (Cells [Num (mean (column frame_rate_fps tp)), Num (std (column frame_rate_fps tp))]),
          emit (agg_stats (\<lambda>k. Num (Fin k)) timestamp_min total_error_mm ca)]) (\<lambda>_.
     then_do (calib_at calib 0) (\<lambda>initial.
     then_do (set_initial_calib initial) (\<lambda>_.
     then_do (emit (Cells [Num (mean initial), Num (std initial)])) (\<lambda>_.
     then_do (calib_at calib 45) (\<lambda>extended.
       do_all
         [emit (Cells [Num (mean extended), Num (std extended)]),
          emit (Num (fsub (mean extended) (mean initial)))])))))))))"

text \<open>Lines 77 to 110.\<close>

definition wim_comparison :: "collab_row list \<Rightarrow> out" where
  "wim_comparison cp =
     Cells (map (\<lambda>k. let g = select_rows (\<lambda>r. interface_type r = k) cp
                     in Cells [Text k,
                               Num (mean (column task_completion_time_sec g)),
                               Num (std (column task_completion_time_sec g)),
                               Num (mean (column coordination_errors g)),
                               Num (std (column coordination_errors g)),
                               Num (mean (column spatial_awareness_score g)),
                               Num (std (column spatial_awareness_score g)),
                               Num (mean (column task_success g))])
                (group_keys interface_type cp))"

definition collab_column :: "addr \<Rightarrow> string \<Rightarrow> (collab_row \<Rightarrow> real) \<Rightarrow> real list prog" where
  "collab_column collab interface c =
     then_do (mask_collab collab (\<lambda>r. interface_type r = interface)) (\<lambda>a.
     then_do (collab_rows a) (\<lambda>rows. ret (column c rows)))"

definition collaboration_effectiveness :: "unit prog" where
  "collaboration_effectiveness =
     then_do (read_var collab_perf_ref) (\<lambda>collab. then_do (collab_rows collab) (\<lambda>cp.
     then_do (emit (wim_comparison cp)) (\<lambda>_.
     then_do (collab_column collab ''baseline'' task_completion_time_sec) (\<lambda>b_times.
     then_do (set_baseline_times b_times) (\<lambda>_.
     then_do (collab_column collab ''wim'' task_completion_time_sec) (\<lambda>w_times.
     then_do (set_wim_times w_times) (\<lambda>_.
     then_do (lift (hypothesis_test b_times w_times)) (\<lambda>(t_stat, p_val, d).
     then_do (set_p_value p_val) (\<lambda>_.
     then_do (emit (Cells [Num t_stat, P_val p_val, Num d])) (\<lambda>_.
     then_do (emit (Num (improvement_pct b_times w_times))) (\<lambda>_.
     then_do (collab_column collab ''baseline'' coordination_errors) (\<lambda>b_errors.
     then_do (collab_column collab ''wim'' coordination_errors) (\<lambda>w_errors.
     then_do (lift (hypothesis_test b_errors w_errors)) (\<lambda>(t_stat2, p_value2, d2).
     then_do (emit (Cells [Num t_stat2, P_val p_value2, Num d2])) (\<lambda>_.
     then_do (emit (Num (improvement_pct b_errors w_errors))) (\<lambda>_.
     then_do (collab_column collab ''baseline'' task_success) (\<lambda>b_success.
     then_do (collab_column collab ''wim'' task_success) (\<lambda>w_success.
       do_all
         [emit (Num (fmul (mean b_success) (of_pyint 100))),
          emit (Num (fmul (mean w_success) (of_pyint 100))),
          emit (Num (fmul (fsub (mean w_success) (mean b_success)) (of_pyint 100)))]))))))))))))))))))"

text \<open>Lines 122 to 145: the rows of line 123, then the report of one session.\<close>

definition session_frame :: "addr \<Rightarrow> int \<Rightarrow> tech_row list prog" where
  "session_frame tech session =
     then_do (mask_tech tech (\<lambda>r. session_id r = session)) (\<lambda>a.
     then_do (sort_values_frame a timestamp_sec False) (\<lambda>sorted_ref.
     then_do (deref sorted_ref) tech_rows))"

definition drift_report :: "session_drift \<Rightarrow> out" where
  "drift_report r =
     Cells [Count (sd_session r), Text (sd_scenario r), Num (Fin (sd_duration r)),
            Num (fps_drift r), Num (fps_drift_per_min r),
            Num (calib_drift r), Num (calib_drift_per_min r),
            Num (latency_jitter r), Num (Fin (fps_final r)), Flag (fps_final_pass r)]"

definition stability_over_time :: "unit prog" where
  "stability_over_time =
     then_do (read_var tech_perf_ref) (\<lambda>tech. then_do (tech_rows tech) (\<lambda>tp.
       for_each (sorted_unique (column session_id tp)) (\<lambda>session.
         then_do (read_var tech_perf_ref) (\<lambda>tech'.
         then_do (session_frame tech' session) (\<lambda>sdata.
         then_do (lift (session_metrics session sdata)) (\<lambda>r.
           emit (drift_report r)))))))"

text \<open>Lines 149 to 155.\<close>

definition correlation_analysis :: "unit prog" where
  "correlation_analysis =
     then_do (read_var tech_perf_ref) (\<lambda>tech. then_do (tech_rows tech) (\<lambda>tp.
     then_do (set_temp_fps_corr (temp_fps_corr tp)) (\<lambda>_.
     then_do (set_temp_calib_corr (temp_calib_corr tp)) (\<lambda>_.
       do_all
         [emit (Num (temp_fps_corr tp)),
          emit (Num (temp_calib_corr tp)),
          emit (Num (temp_latency_corr tp))]))))"

text \<open>
  The figures, lines 166 to 300: the columns handed to the plotting library, with the
  label of each line.  A loop that builds one plot per element collects them in order.
  \<^verbatim>\<open>str.split\<close> and the \<^verbatim>\<open>[1]\<close> applied to its result are modelled (the index raises
  \<^verbatim>\<open>IndexError\<close> on a scenario name without an underscore), and so is the
  \<^verbatim>\<open>TypeError\<close> that \<^verbatim>\<open>np.polyfit\<close> raises on empty columns; the capitalisation of the
  label, the coefficients of the fitted lines of figure 4 and all styling are not.
\<close>

fun collect :: "'a list \<Rightarrow> ('a \<Rightarrow> 'b prog) \<Rightarrow> 'b list prog" where
  "collect [] f = ret []"
| "collect (x # xs) f = then_do (f x) (\<lambda>y. then_do (collect xs f) (\<lambda>ys. ret (y # ys)))"

fun split_on :: "char \<Rightarrow> string \<Rightarrow> string list" where
  "split_on c [] = [[]]"
| "split_on c (x # xs) =
     (if x = c then [] # split_on c xs
      else (case split_on c xs of w # ws \<Rightarrow> (x # w) # ws | [] \<Rightarrow> [[x]]))"

definition minutes :: "real list \<Rightarrow> real list" where
  "minutes secs = map (\<lambda>t. t / 60) secs"

definition scenario_line :: "addr \<Rightarrow> string \<Rightarrow> plot prog" where
  "scenario_line tech sc =
     then_do (mask_tech tech (\<lambda>r. scenario r = sc)) (\<lambda>a.
     then_do (tech_rows a) (\<lambda>rows.
       ret (Line (Text sc) (minutes (column timestamp_sec rows)) (column network_latency_ms rows))))"

definition figure_1 :: "unit prog" where
  "figure_1 =
     then_do (collect [''scenario_basic'', ''scenario_medium'', ''scenario_complex'']
                (\<lambda>sc. then_do (read_var tech_perf_ref) (\<lambda>tech. scenario_line tech sc))) (\<lambda>lines.
     then_do (read_var baseline_times_var) (\<lambda>b_times.
     then_do (read_var wim_times_var) (\<lambda>w_times.
     then_do (read_var p_value_var) (\<lambda>p_val.
       savefig ''../figures/technical_performance_summary.png''
         (lines @ [Bars [mean b_times, mean w_times] [std b_times, std w_times],
                   Legend (P_val p_val)])))))"

definition session_line ::
  "(tech_row \<Rightarrow> real) \<Rightarrow> bool \<Rightarrow> int \<Rightarrow> plot prog" where
  "session_line c with_duration session =
     then_do (read_var tech_perf_ref) (\<lambda>tech.
     then_do (session_frame tech session) (\<lambda>sdata.
     then_do (lift (iloc (column scenario sdata) 0)) (\<lambda>scen.
     then_do (if with_duration
              then then_do (lift (iloc (column duration_min sdata) 0)) (\<lambda>d. ret [Num (Fin d)])
              else ret []) (\<lambda>duration.
     then_do (lift (iloc (split_on CHR ''_'' scen) 1)) (\<lambda>piece.
       ret (Line (Cells ([Count session, Text piece] @ duration))
                 (minutes (column timestamp_sec sdata)) (column c sdata)))))))"

definition session_figure :: "string \<Rightarrow> (tech_row \<Rightarrow> real) \<Rightarrow> bool \<Rightarrow> unit prog" where
  "session_figure file c with_duration =
     then_do (read_var tech_perf_ref) (\<lambda>tech. then_do (tech_rows tech) (\<lambda>tp.
     then_do (collect (sorted_unique (column session_id tp)) (session_line c with_duration))
       (\<lambda>lines. savefig file lines)))"

definition figure_2 :: "unit prog" where
  "figure_2 = session_figure ''../figures/frame_rate_stability.png'' frame_rate_fps True"

definition figure_3 :: "unit prog" where
  "figure_3 = session_figure ''../figures/calibration_drift.png'' calibration_error_mm False"

definition polyfit_line :: "real list \<Rightarrow> real list \<Rightarrow> unit prog" where
  "polyfit_line xs ys = (if xs = [] then lift (Inl TypeError) else ret ())"

definition figure_4 :: "unit prog" where
  "figure_4 =
     then_do (read_var tech_perf_ref) (\<lambda>tech. then_do (tech_rows tech) (\<lambda>tp.
     then_do (polyfit_line (column headset_temp_c tp) (column frame_rate_fps tp)) (\<lambda>_.
     then_do (read_var temp_fps_corr_var) (\<lambda>r_fps.
     then_do (polyfit_line (column headset_temp_c tp) (column calibration_error_mm tp)) (\<lambda>_.
     then_do (read_var temp_calib_corr_var) (\<lambda>r_calib.
       savefig ''../figures/temperature_correlation.png''
         [Scatter (column headset_temp_c tp) (column frame_rate_fps tp)
                  (minutes (column timestamp_sec tp)),
          Legend (Num r_fps),
          Scatter (column headset_temp_c tp) (column calibration_error_mm tp)
                  (minutes (column timestamp_sec tp)),
          Legend (Num r_calib)]))))))"

text \<open>
  Lines 310 to 324: the table is built, made a frame, and printed.  The count of files
  in the figure directory that line 329 prints is not modelled.
\<close>

definition summary_rows :: "addr \<Rightarrow> summary prog" where
  "summary_rows a s =
     (case heap s a of Some (Summary_frame t) \<Rightarrow> (Inr t, s) | _ \<Rightarrow> (Inl KeyError, s))"

fun achieved_out :: "achieved \<Rightarrow> out" where
  "achieved_out (Mean_pm_std m sd unit_name) = Cells [Num m, Num sd, Text unit_name]"
| "achieved_out (P_equals p) = P_val p"
| "achieved_out (Literal t) = Text t"

definition summary_out :: "summary \<Rightarrow> out" where
  "summary_out t =
     Cells (map (\<lambda>(r, g, a, st). Cells [Text r, Text g, achieved_out a, Text st])
                (zip (requirement t) (zip (target t) (zip (achieved_col t) (status t)))))"

definition summary_section :: "unit prog" where
  "summary_section =
     then_do (read_var initial_calib_var) (\<lambda>initial.
     then_do (read_var tech_perf_ref) (\<lambda>tech. then_do (tech_rows tech) (\<lambda>tp.
     then_do (read_var p_value_var) (\<lambda>p_val.
     then_do (alloc (Summary_frame (summary_data initial tp p_val))) (\<lambda>summary_df.
     then_do (summary_rows summary_df) (\<lambda>t. emit (summary_out t)))))))"

text \<open>
  The statements after the load, in order, and the run of the first \<open>k\<close> of them on the
  three parsed files.  An exception ends the run.
\<close>

definition script_steps :: "unit prog list" where
  "script_steps =
     [report_sizes, technical_benchmarks, collaboration_effectiveness, stability_over_time,
      correlation_analysis, figure_1, figure_2, figure_3, figure_4, summary_section]"

definition run_script ::
  "tech_row list \<Rightarrow> collab_row list \<Rightarrow> calib_row list \<Rightarrow> nat \<Rightarrow> (error + unit) \<times> script_state" where
  "run_script tech_csv collab_csv calib_csv k =
     then_do (load tech_csv collab_csv calib_csv) (\<lambda>_. do_all (take k script_steps)) start_state"

text \<open>
  What a statement may do to the store if the frames are to stay as loaded: objects
  that exist keep their contents, and the three frame variables keep their references.
\<close>

definition frames_kept :: "script_state \<Rightarrow> script_state \<Rightarrow> bool" where
  "frames_kept s s' \<longleftrightarrow>
     (\<forall>a. a < next_addr s \<longrightarrow> heap s' a = heap s a) \<and> next_addr s \<le> next_addr s'
     \<and> tech_perf_ref s' = tech_perf_ref s \<and> collab_perf_ref s' = collab_perf_ref s
     \<and> calib_acc_ref s' = calib_acc_ref s"

definition keeps :: "'a prog \<Rightarrow> bool" where
  "keeps m \<longleftrightarrow> (\<forall>s. frames_kept s (snd (m s)))"

section \<open>A small data set\<close>

text \<open>
  Five measurements of two sessions, out of timestamp order, on which the properties
  below are evaluated: session 1 has four rows, session 2 has one.
\<close>

definition example_tech_perf :: "tech_row list" where
  "example_tech_perf =
     [\<lparr> session_id = 1, scenario = ''scenario_basic'', timestamp_sec = 60, duration_min = 30,
         network_latency_ms = 70, frame_rate_fps = 89, calibration_error_mm = 8,
         headset_temp_c = 32 \<rparr>,
      \<lparr> session_id = 1, scenario = ''scenario_basic'', timestamp_sec = 0, duration_min = 30,
         network_latency_ms = 80, frame_rate_fps = 91, calibration_error_mm = 7,
         headset_temp_c = 30 \<rparr>,
      \<lparr> session_id = 1, scenario = ''scenario_basic'', timestamp_sec = 120, duration_min = 30,
         network_latency_ms = 75, frame_rate_fps = 88, calibration_error_mm = 10,
         headset_temp_c = 34 \<rparr>,
      \<lparr> session_id = 2, scenario = ''scenario_medium'', timestamp_sec = 0, duration_min = 45,
         network_latency_ms = 60, frame_rate_fps = 90, calibration_error_mm = 9,
         headset_temp_c = 31 \<rparr>,
      \<lparr> session_id = 1, scenario = ''scenario_basic'', timestamp_sec = 30, duration_min = 30,
         network_latency_ms = 90, frame_rate_fps = 90, calibration_error_mm = 7,
         headset_temp_c = 31 \<rparr>]"

text \<open>Four collaboration trials and three calibration points.\<close>

definition example_collab_perf :: "collab_row list" where
  "example_collab_perf =
     [\<lparr> interface_type = ''baseline'', task_completion_time_sec = 100, coordination_errors = 4,
         spatial_awareness_score = 3, task_success = 1 \<rparr>,
      \<lparr> interface_type = ''wim'', task_completion_time_sec = 80, coordination_errors = 2,
         spatial_awareness_score = 4, task_success = 1 \<rparr>,
      \<lparr> interface_type = ''baseline'', task_completion_time_sec = 120, coordination_errors = 6,
         spatial_awareness_score = 2, task_success = 0 \<rparr>,
      \<lparr> interface_type = ''wim'', task_completion_time_sec = 90, coordination_errors = 2,
         spatial_awareness_score = 5, task_success = 1 \<rparr>]"

definition example_calib_acc :: "calib_row list" where
  "example_calib_acc =
     [\<lparr> timestamp_min = 0, total_error_mm = 4 \<rparr>,
      \<lparr> timestamp_min = 45, total_error_mm = 6 \<rparr>,
      \<lparr> timestamp_min = 0, total_error_mm = 5 \<rparr>]"

section \<open>Properties\<close>

subsection \<open>Arithmetic of the extended numbers\<close>

lemma fneg_fneg: "fneg (fneg a) = a"
  by (cases a) auto

lemma fneg_fadd: "fneg (fadd a b) = fadd (fneg a) (fneg b)"
  by (cases a; cases b) auto

lemma fadd_commute: "fadd a b = fadd b a"
  by (cases a; cases b) auto

lemma fsub_swap: "fsub b a = fneg (fsub a b)"
  by (simp add: fsub_def fneg_fadd fneg_fneg fadd_commute)

lemma fdiv_fneg_left: "fdiv (fneg a) b = fneg (fdiv a b)"
  by (cases a; cases b) (auto simp: signed_inf_def)

lemma fabs_fneg: "fabs (fneg a) = fabs a"
  by (cases a) auto




subsection \<open>Sums of squares\<close>

lemma sum_sq_nonneg: "0 \<le> (\<Sum>x\<leftarrow>xs. (f x :: real)\<^sup>2)"
  by (induction xs) auto

lemma sum_sq_dev_pos:
  assumes "x \<in> set xs" "y \<in> set xs" "x \<noteq> y"
  shows "0 < (\<Sum>z\<leftarrow>xs. (z - m :: real)\<^sup>2)"
proof -
  have "\<exists>z\<in>set xs. z \<noteq> m" using assms by metis
  then have "\<not> (\<forall>v \<in> set (map (\<lambda>z. (z - m)\<^sup>2) xs). v = 0)" by auto
  then have "(\<Sum>z\<leftarrow>xs. (z - m)\<^sup>2) \<noteq> 0"
    by (subst sum_list_nonneg_eq_0_iff) auto
  with sum_sq_nonneg[of "\<lambda>z. z - m" xs] show ?thesis by simp
qed

lemma two_distinct_length:
  assumes "x \<in> set xs" "y \<in> set xs" "x \<noteq> y"
  shows "2 \<le> length xs"
proof -
  have "card {x, y} \<le> card (set xs)" using assms by (intro card_mono) auto
  also have "\<dots> \<le> length xs" by (rule card_length)
  finally show ?thesis using assms by simp
qed

subsection \<open>Mean and standard deviation on samples that define them\<close>

lemma mean_Fin: "xs \<noteq> [] \<Longrightarrow> mean xs = Fin (sample_mean xs)"
  by (simp add: mean_def sample_mean_def)

lemma sample_var_nonneg:
  "2 \<le> length xs \<Longrightarrow> 0 \<le> (\<Sum>x\<leftarrow>xs. (x - sample_mean xs)\<^sup>2) / (real (length xs) - 1)"
  by (intro divide_nonneg_nonneg sum_sq_nonneg) simp

lemma std_Fin: "2 \<le> length xs \<Longrightarrow> std xs = Fin (sample_sd xs)"
  using sample_var_nonneg[of xs]
  by (simp add: std_def var_def sample_sd_def sample_mean_def
      power2_commute[of "sum_list xs / real (length xs)"])

lemma std_NaN: "length xs < 2 \<Longrightarrow> std xs = NaN"
  by (simp add: std_def var_def)

lemma pooled_var_nonneg:
  "2 \<le> length xs \<Longrightarrow> 2 \<le> length ys \<Longrightarrow>
   0 \<le> ((real (length xs) - 1) * (sample_sd xs)\<^sup>2 + (real (length ys) - 1) * (sample_sd ys)\<^sup>2)
        / (real (length xs) + real (length ys) - 2)"
  by (intro divide_nonneg_nonneg add_nonneg_nonneg mult_nonneg_nonneg) simp_all

subsection \<open>Claim C1\<close>

text \<open>
  Claim C1.  For two samples of at least two values each, the effect size of lines 91 and
  99 is Cohen's \<open>d\<close> with the pooled standard deviation: the difference of the sample
  means divided by \<open>sqrt (((n\<^sub>1 - 1) s\<^sub>1\<^sup>2 + (n\<^sub>2 - 1) s\<^sub>2\<^sup>2) / (n\<^sub>1 + n\<^sub>2 - 2))\<close>, where
  \<open>s\<^sub>1\<close> and \<open>s\<^sub>2\<close> are the sample standard deviations.  The quotient is the script's
  floating-point division: when the pooled standard deviation is not zero it is the real
  number \<open>cohens_d_formula\<close>.
\<close>

theorem cohens_d_pooled:
  assumes "2 \<le> length baseline" and "2 \<le> length wim"
  shows "cohens_d baseline wim
           = fdiv (Fin (sample_mean baseline - sample_mean wim)) (Fin (pooled_sd baseline wim))
         \<and> (pooled_sd baseline wim \<noteq> 0 \<longrightarrow>
              cohens_d baseline wim = Fin (cohens_d_formula baseline wim))"
proof -
  have ne: "baseline \<noteq> []" "wim \<noteq> []"
    using assms by auto
  have n: "real (length baseline) + real (length wim) - 2 \<noteq> 0"
    using assms by simp
  have "cohens_d baseline wim
           = fdiv (Fin (sample_mean baseline - sample_mean wim)) (Fin (pooled_sd baseline wim))"
    using pooled_var_nonneg[OF assms] n
    by (simp add: cohens_d_def mean_Fin ne std_Fin assms fsub_def fsquare_def of_pyint_def
        len_def pooled_sd_def power2_eq_square not_less)
  then show ?thesis
    by (simp add: cohens_d_formula_def)
qed

theorem cohens_d_pooled_witness:
  "2 \<le> length [2, 6 :: real] \<and> 2 \<le> length [1, 1 :: real]
   \<and> pooled_sd [2, 6] [1, 1] = 2
   \<and> cohens_d [2, 6] [1, 1] = Fin (cohens_d_formula [2, 6] [1, 1])
   \<and> cohens_d [2, 6] [1, 1] = Fin (3 / 2)"
proof -
  have p: "pooled_sd [2, 6] [1, 1] = 2"
    by (simp add: pooled_sd_def sample_sd_def sample_mean_def)
  show ?thesis
    using cohens_d_pooled[of "[2, 6]" "[1, 1]"] p
    by (simp add: sample_mean_def cohens_d_formula_def)
qed

subsection \<open>Claim C2\<close>


lemma cohens_d_line_returns:
  "cohens_d_line baseline wim = Inr (Np_float (cohens_d baseline wim))"
  by (simp add: cohens_d_line_def py_truediv_def np_square_def np_sqrt_def float_result_def
      cohens_d_def fsquare_def)

lemma hypothesis_test_returns:
  "hypothesis_test baseline wim
     = Inr (fst (ttest_ind baseline wim), snd (ttest_ind baseline wim), cohens_d baseline wim)"
  by (simp add: hypothesis_test_def cohens_d_line_returns split: prod.splits)

text \<open>
  The division of line 91 would raise on two Python floats; the one-value sample against
  three values is the library's own case of a variance taken as 0.
\<close>

lemma python_division_raises: "py_truediv (Py_float NaN) (Py_int 0) = Inl ZeroDivisionError"
  by (simp add: py_truediv_def of_pyint_def)





subsection \<open>Positional access\<close>

lemma iloc_first: "df \<noteq> [] \<Longrightarrow> iloc df 0 = Inr (hd df)"
  by (cases df) (simp_all add: iloc_def len_def)

lemma iloc_last: "df \<noteq> [] \<Longrightarrow> iloc df (- 1) = Inr (last df)"
  by (simp add: iloc_def len_def last_conv_nth nat_diff_distrib' Suc_leI)

subsection \<open>Claim C3\<close>

lemma set_session_data:
  "set (session_data tech_perf session) = {r \<in> set tech_perf. session_id r = session}"
  by (simp add: session_data_def sort_values_def select_rows_def)

lemma session_data_nonempty:
  assumes "session \<in> set (column session_id tech_perf)"
  shows "session_data tech_perf session \<noteq> []"
proof -
  from assms obtain r where "r \<in> set tech_perf" "session_id r = session"
    by (auto simp: column_def)
  then have "r \<in> set (session_data tech_perf session)"
    by (simp add: set_session_data)
  then show ?thesis by auto
qed

lemma drift_of_session_Inr:
  assumes "session_data tech_perf session \<noteq> []"
  shows "drift_of_session tech_perf session =
     Inr \<lparr> sd_session = session,
           sd_scenario = scenario (hd (session_data tech_perf session)),
           sd_duration = duration_min (hd (session_data tech_perf session)),
           fps_drift = Fin (frame_rate_fps (hd (session_data tech_perf session))
                            - frame_rate_fps (last (session_data tech_perf session))),
           fps_drift_per_min =
             fdiv (Fin (frame_rate_fps (hd (session_data tech_perf session))
                        - frame_rate_fps (last (session_data tech_perf session))))
                  (Fin (duration_min (hd (session_data tech_perf session)))),
           calib_drift = Fin (calibration_error_mm (last (session_data tech_perf session))
                              - calibration_error_mm (hd (session_data tech_perf session))),
           calib_drift_per_min =
             fdiv (Fin (calibration_error_mm (last (session_data tech_perf session))
                        - calibration_error_mm (hd (session_data tech_perf session))))
                  (Fin (duration_min (hd (session_data tech_perf session)))),
           latency_jitter = std (column network_latency_ms (session_data tech_perf session)),
           fps_final = frame_rate_fps (last (session_data tech_perf session)),
           fps_final_pass = (85 \<le> frame_rate_fps (last (session_data tech_perf session))) \<rparr>"
proof -
  have ne: "column duration_min (session_data tech_perf session) \<noteq> []"
     "column scenario (session_data tech_perf session) \<noteq> []"
    using assms by (simp_all add: column_def)
  have hd: "hd (column duration_min (session_data tech_perf session))
              = duration_min (hd (session_data tech_perf session))"
       "hd (column scenario (session_data tech_perf session))
              = scenario (hd (session_data tech_perf session))"
    using assms by (simp_all add: column_def hd_map)
  show ?thesis
    by (simp add: drift_of_session_def session_metrics_def Let_def iloc_first iloc_last assms ne hd
        fsub_def)
qed

text \<open>
  Claim C3.  For every session that has a row, the loop body does not raise; the rows it
  works on are that session's rows in ascending order of timestamp; the frame-rate drift
  is the frame rate of the first of them minus that of the last, the calibration drift is
  the calibration error of the last minus that of the first, each is also divided by the
  duration recorded in the first row, and the jitter is the standard deviation of the
  session's latencies.
\<close>

theorem drift_first_minus_last:
  assumes "session \<in> set (column session_id tech_perf)"
  shows "\<exists>r. drift_of_session tech_perf session = Inr r
     \<and> sorted (column timestamp_sec (session_data tech_perf session))
     \<and> mset (session_data tech_perf session)
         = mset (select_rows (\<lambda>r. session_id r = session) tech_perf)
     \<and> fps_drift r = Fin (frame_rate_fps (hd (session_data tech_perf session))
                          - frame_rate_fps (last (session_data tech_perf session)))
     \<and> calib_drift r = Fin (calibration_error_mm (last (session_data tech_perf session))
                            - calibration_error_mm (hd (session_data tech_perf session)))
     \<and> fps_drift_per_min r
         = fdiv (fps_drift r) (Fin (duration_min (hd (session_data tech_perf session))))
     \<and> calib_drift_per_min r
         = fdiv (calib_drift r) (Fin (duration_min (hd (session_data tech_perf session))))
     \<and> latency_jitter r = std (column network_latency_ms (session_data tech_perf session))"
proof -
  have ne: "session_data tech_perf session \<noteq> []"
    using assms by (rule session_data_nonempty)
  have "sorted (column timestamp_sec (session_data tech_perf session))"
    by (simp add: session_data_def sort_values_def column_def)
  moreover have "mset (session_data tech_perf session)
         = mset (select_rows (\<lambda>r. session_id r = session) tech_perf)"
    by (simp add: session_data_def sort_values_def)
  ultimately show ?thesis
    by (simp add: drift_of_session_Inr[OF ne])
qed

lemma example_session_1:
  "column timestamp_sec (session_data example_tech_perf 1) = [0, 30, 60, 120]"
  by (simp add: example_tech_perf_def session_data_def select_rows_def sort_values_def column_def)

theorem drift_first_minus_last_witness:
  "1 \<in> set (column session_id example_tech_perf)
   \<and> column timestamp_sec (session_data example_tech_perf 1) = [0, 30, 60, 120]
   \<and> (\<exists>r. drift_of_session example_tech_perf 1 = Inr r
        \<and> fps_drift r = Fin 3 \<and> calib_drift r = Fin 3
        \<and> fps_drift_per_min r = Fin (1 / 10) \<and> calib_drift_per_min r = Fin (1 / 10)
        \<and> latency_jitter r = std [80, 90, 70, 75])"
proof -
  have m: "1 \<in> set (column session_id example_tech_perf)"
    by (simp add: example_tech_perf_def column_def)
  have sd: "session_data example_tech_perf 1 =
      [example_tech_perf ! 1, example_tech_perf ! 4, example_tech_perf ! 0, example_tech_perf ! 2]"
    by (simp add: example_tech_perf_def session_data_def select_rows_def sort_values_def)
  from drift_first_minus_last[OF m] obtain r where
    r: "drift_of_session example_tech_perf 1 = Inr r"
       "fps_drift r = Fin (frame_rate_fps (hd (session_data example_tech_perf 1))
                          - frame_rate_fps (last (session_data example_tech_perf 1)))"
       "calib_drift r = Fin (calibration_error_mm (last (session_data example_tech_perf 1))
                            - calibration_error_mm (hd (session_data example_tech_perf 1)))"
       "fps_drift_per_min r
         = fdiv (fps_drift r) (Fin (duration_min (hd (session_data example_tech_perf 1))))"
       "calib_drift_per_min r
         = fdiv (calib_drift r) (Fin (duration_min (hd (session_data example_tech_perf 1))))"
       "latency_jitter r = std (column network_latency_ms (session_data example_tech_perf 1))"
    by blast
  have "fps_drift r = Fin 3" "calib_drift r = Fin 3"
       "fps_drift_per_min r = Fin (1 / 10)" "calib_drift_per_min r = Fin (1 / 10)"
       "latency_jitter r = std [80, 90, 70, 75]"
    using r(2-) unfolding sd by (simp_all add: example_tech_perf_def column_def)
  with m r(1) example_session_1 show ?thesis by blast
qed

text \<open>
  The whole loop of lines 122 to 145 ends without an exception and reports the sessions
  in ascending order of their identifier, once each.
\<close>

lemma drift_loop_returns:
  "set sessions \<subseteq> set (column session_id tech_perf) \<Longrightarrow>
   \<exists>rs. drift_loop tech_perf sessions = Inr rs \<and> map sd_session rs = sessions"
proof (induction sessions)
  case Nil
  then show ?case by simp
next
  case (Cons s rest)
  then obtain rs where rs: "drift_loop tech_perf rest = Inr rs" "map sd_session rs = rest"
    by auto
  from Cons.prems have "s \<in> set (column session_id tech_perf)"
    by simp
  then have "session_data tech_perf s \<noteq> []"
    by (rule session_data_nonempty)
  then obtain r where "drift_of_session tech_perf s = Inr r" "sd_session r = s"
    by (simp add: drift_of_session_Inr)
  then show ?case
    by (simp add: rs)
qed

theorem performance_drift_returns:
  "\<exists>rs. performance_drift tech_perf = Inr rs
     \<and> map sd_session rs = sorted_unique (column session_id tech_perf)
     \<and> sorted (map sd_session rs) \<and> distinct (map sd_session rs)"
proof -
  have "set (sorted_unique (column session_id tech_perf)) \<subseteq> set (column session_id tech_perf)"
    by (simp add: sorted_unique_def)
  from drift_loop_returns[OF this] show ?thesis
    by (auto simp: performance_drift_def sorted_unique_def)
qed

subsection \<open>Claim C4\<close>

text \<open>
  Claim C4.  For a session of exactly one row both drifts are exactly zero and the jitter
  is \<open>NaN\<close>; the drifts per minute are zero as well when the recorded duration is not
  zero.
\<close>

theorem single_row_session:
  assumes "length (select_rows (\<lambda>r. session_id r = session) tech_perf) = 1"
  shows "\<exists>r. drift_of_session tech_perf session = Inr r
     \<and> fps_drift r = Fin 0 \<and> calib_drift r = Fin 0 \<and> latency_jitter r = NaN
     \<and> (sd_duration r \<noteq> 0 \<longrightarrow> fps_drift_per_min r = Fin 0 \<and> calib_drift_per_min r = Fin 0)"
proof -
  from assms obtain row where "select_rows (\<lambda>r. session_id r = session) tech_perf = [row]"
    by (auto simp: length_Suc_conv)
  then have sd: "session_data tech_perf session = [row]"
    by (simp add: session_data_def sort_values_def)
  show ?thesis
    by (simp add: drift_of_session_Inr sd column_def std_NaN)
qed

theorem single_row_session_witness:
  "length (select_rows (\<lambda>r. session_id r = 2) example_tech_perf) = 1
   \<and> (\<exists>r. drift_of_session example_tech_perf 2 = Inr r
        \<and> fps_drift r = Fin 0 \<and> calib_drift r = Fin 0 \<and> latency_jitter r = NaN
        \<and> sd_duration r = 45
        \<and> fps_drift_per_min r = Fin 0 \<and> calib_drift_per_min r = Fin 0)"
proof -
  have l: "length (select_rows (\<lambda>r. session_id r = 2) example_tech_perf) = 1"
    by (simp add: example_tech_perf_def select_rows_def)
  from single_row_session[OF l] obtain r where
    r: "drift_of_session example_tech_perf 2 = Inr r" "fps_drift r = Fin 0"
       "calib_drift r = Fin 0" "latency_jitter r = NaN"
       "sd_duration r \<noteq> 0 \<longrightarrow> fps_drift_per_min r = Fin 0 \<and> calib_drift_per_min r = Fin 0"
    by blast
  have sd: "session_data example_tech_perf 2 = [example_tech_perf ! 3]"
    by (simp add: example_tech_perf_def session_data_def select_rows_def sort_values_def)
  have "sd_duration r = 45"
    using r(1) unfolding drift_of_session_Inr[of example_tech_perf 2, unfolded sd, simplified]
    by (auto simp: example_tech_perf_def)
  with l r show ?thesis by auto
qed

subsection \<open>Claim C5\<close>

lemma exponent_eqI:
  assumes "2 powi e \<le> \<bar>x\<bar>" "\<bar>x\<bar> < 2 powi (e + 1)" "- 1022 \<le> e"
  shows "exponent x = e"
proof -
  have pos: "0 < \<bar>x\<bar>"
  proof -
    have "(0 :: real) < 2 powi e" by simp
    with assms(1) show ?thesis by linarith
  qed
  have 1: "2 powr real_of_int e \<le> \<bar>x\<bar>"
    using assms(1) by (simp add: powr_real_of_int')
  have "2 powr real_of_int (e + 1) = (2 :: real) powi (e + 1)"
    by (rule powr_real_of_int') simp_all
  then have 2: "\<bar>x\<bar> < 2 powr (real_of_int e + 1)"
    using assms(2) by (simp add: add.commute)
  have "\<lfloor>log 2 \<bar>x\<bar>\<rfloor> = e"
    using floor_log_eq_powr_iff[of "\<bar>x\<bar>" 2 e] pos 1 2 by simp
  then show ?thesis
    using assms(3) by (simp add: exponent_def)
qed

lemma round_half_even_error: "\<bar>real_of_int (round_half_even r) - r\<bar> \<le> 1 / 2"
  unfolding round_half_even_def by (auto simp: abs_le_iff)

lemma exponent_le:
  assumes "x \<noteq> 0" "\<bar>x\<bar> < 2 powi (E + 1)" "- 1022 \<le> E"
  shows "exponent x \<le> E"
proof -
  have "2 powr real_of_int (E + 1) = (2 :: real) powi (E + 1)"
    by (rule powr_real_of_int') simp_all
  then have "\<bar>x\<bar> < 2 powr real_of_int (E + 1)"
    using assms(2) by simp
  then have "log 2 \<bar>x\<bar> < real_of_int (E + 1)"
    using assms(1) by (simp add: log_less_iff)
  then have "\<lfloor>log 2 \<bar>x\<bar>\<rfloor> < E + 1"
    unfolding floor_less_iff .
  then show ?thesis
    using assms(3) by (simp add: exponent_def)
qed

lemma quantum_pos: "0 < quantum x"
  by (simp add: quantum_def)

lemma round_double_error:
  assumes "\<bar>x\<bar> < 2 powi (E + 1)" and "- 1022 \<le> E" and "E \<le> 1022"
  shows "\<exists>r. round_double x = Fin r \<and> \<bar>r - x\<bar> \<le> 2 powi (E - 53)"
proof (cases "x = 0")
  case True
  then show ?thesis by (simp add: round_double_def)
next
  case False
  define q where "q = quantum x"
  define r where "r = real_of_int (round_half_even (x / q)) * q"
  have q: "0 < q" by (simp add: q_def quantum_pos)
  have "exponent x - 52 \<le> E - 52"
    using exponent_le[OF False assms(1,2)] by simp
  then have "q \<le> 2 powi (E - 52)"
    unfolding q_def quantum_def by (intro power_int_increasing) simp_all
  also have "(2 :: real) powi (E - 52) = 2 * 2 powi (E - 53)"
    by (simp add: power_int_diff)
  finally have qE: "q / 2 \<le> 2 powi (E - 53)" by simp
  have "r - x = q * (real_of_int (round_half_even (x / q)) - x / q)"
    using q by (simp add: r_def field_simps)
  then have "\<bar>r - x\<bar> = q * \<bar>real_of_int (round_half_even (x / q)) - x / q\<bar>"
    using q by (simp add: abs_mult)
  also have "\<dots> \<le> q * (1 / 2)"
    using q round_half_even_error[of "x / q"] by (intro mult_left_mono) simp_all
  finally have err: "\<bar>r - x\<bar> \<le> 2 powi (E - 53)"
    using qE by simp
  have "(2 :: real) powi (E - 53) \<le> 2 powi 969" "(2 :: real) powi (E + 1) \<le> 2 powi 1023"
    using assms(3) by (intro power_int_increasing; simp)+
  then have "\<bar>r\<bar> < 2 ^ 1023 + 2 ^ 969"
    using err assms(1) by simp
  then have "\<not> 2 ^ 1024 \<le> \<bar>r\<bar>"
    by simp
  then have "round_double x = Fin r"
    using False by (simp add: round_double_def r_def q_def)
  with err show ?thesis by blast
qed

lemma round_double_eval:
  assumes "2 powi e \<le> \<bar>x\<bar>" and "\<bar>x\<bar> < 2 powi (e + 1)" and "- 1022 \<le> e"
    and "round_half_even (x / 2 powi (e - 52)) = m"
    and "\<bar>real_of_int m * 2 powi (e - 52)\<bar> < 2 ^ 1024"
  shows "round_double x = Fin (real_of_int m * 2 powi (e - 52))"
proof -
  have "(0 :: real) < 2 powi e"
    by simp
  with assms(1) have "0 < \<bar>x\<bar>"
    by linarith
  then have "x \<noteq> 0"
    by simp
  moreover have "quantum x = 2 powi (e - 52)"
    by (simp add: quantum_def exponent_eqI[OF assms(1,2,3)])
  ultimately show ?thesis
    using assms(4,5) by (simp add: round_double_def)
qed

lemma sum_indicator:
  "sum_list (map ((\<lambda>b. if b then 1 else 0) \<circ> P) xs) = real (length (filter P xs))"
  by (induction xs) auto

lemma bool_mean_count:
  "bool_mean (map P xs) = rnd (fdiv (Fin (real (length (filter P xs)))) (Fin (real (length xs))))"
  by (simp add: bool_mean_def mean_def sum_indicator)

lemma achievement_le_count:
  "achievement_le col t
     = rnd (fmul (rnd (fdiv (Fin (real (length (filter (\<lambda>x. x \<le> t) col))))
                            (Fin (real (length col))))) (Fin 100))"
  by (simp add: achievement_le_def bool_mean_count of_pyint_def)

lemma achievement_ge_count:
  "achievement_ge col t
     = rnd (fmul (rnd (fdiv (Fin (real (length (filter (\<lambda>x. t \<le> x) col))))
                            (Fin (real (length col))))) (Fin 100))"
  by (simp add: achievement_ge_def bool_mean_count of_pyint_def)

lemma percent_error:
  assumes "k \<le> n" and "0 < n"
  shows "\<exists>r. rnd (fmul (rnd (fdiv (Fin (real k)) (Fin (real n)))) (Fin 100)) = Fin r
              \<and> \<bar>r - 100 * real k / real n\<bar> \<le> 1 / 2 ^ 45"
proof -
  define p where "p = real k / real n"
  have p: "0 \<le> p" "p \<le> 1"
    using assms by (simp_all add: p_def)
  then have "\<bar>p\<bar> < 2 powi (0 + 1)"
    by simp
  from round_double_error[OF this] obtain rp where
    rp: "round_double p = Fin rp" "\<bar>rp - p\<bar> \<le> 2 powi (0 - 53)"
    by auto
  have rp53: "\<bar>rp - p\<bar> \<le> 1 / 2 ^ 53"
    using rp(2) by (simp add: power_int_minus divide_simps)
  have "\<bar>rp\<bar> \<le> \<bar>p\<bar> + 1 / 2 ^ 53"
    using rp53 by linarith
  then have "\<bar>rp * 100\<bar> \<le> 100 * (\<bar>p\<bar> + 1 / 2 ^ 53)"
    by (simp add: abs_mult)
  also have "\<dots> < 128"
    using p by simp
  finally have "\<bar>rp * 100\<bar> < 2 powi (6 + 1)"
    by simp
  from round_double_error[OF this] obtain r where
    r: "round_double (rp * 100) = Fin r" "\<bar>r - rp * 100\<bar> \<le> 2 powi (6 - 53)"
    by auto
  have r47: "\<bar>r - rp * 100\<bar> \<le> 1 / 2 ^ 47"
    using r(2) by (simp add: power_int_minus divide_simps)
  have "\<bar>(r - rp * 100) + 100 * (rp - p)\<bar> \<le> \<bar>r - rp * 100\<bar> + \<bar>100 * (rp - p)\<bar>"
    by (rule abs_triangle_ineq)
  moreover have "(r - rp * 100) + 100 * (rp - p) = r - 100 * p"
    by simp
  moreover have "\<bar>100 * (rp - p)\<bar> = 100 * \<bar>rp - p\<bar>"
    by (simp only: abs_mult abs_numeral)
  ultimately have "\<bar>r - 100 * p\<bar> \<le> \<bar>r - rp * 100\<bar> + 100 * \<bar>rp - p\<bar>"
    by (simp only:)
  also have "\<dots> \<le> 1 / 2 ^ 47 + 100 * (1 / 2 ^ 53)"
    by (intro add_mono mult_left_mono r47 rp53) simp
  also have "\<dots> \<le> 1 / 2 ^ 45"
    by simp
  finally have "\<bar>r - 100 * real k / real n\<bar> \<le> 1 / 2 ^ 45"
    by (simp add: p_def)
  moreover have "rnd (fmul (rnd (fdiv (Fin (real k)) (Fin (real n)))) (Fin 100)) = Fin r"
    using assms(2) rp(1) r(1) by (simp add: p_def)
  ultimately show ?thesis by blast
qed

lemma three_of_five: "rnd (fmul (rnd (fdiv (Fin 3) (Fin 5))) (Fin 100)) = Fin 60"
proof -
  define a :: real where "a = 5404319552844595 / 2 ^ 53"
  have "round_double (3 / 5) = Fin (real_of_int 5404319552844595 * 2 powi (- 1 - 52))"
    by (rule round_double_eval) (simp_all add: round_half_even_def)
  then have 1: "round_double (3 / 5) = Fin a"
    by (simp add: a_def)
  have "round_double (a * 100) = Fin (real_of_int 8444249301319680 * 2 powi (5 - 52))"
    by (rule round_double_eval) (simp_all add: a_def round_half_even_def)
  then have 2: "round_double (a * 100) = Fin 60"
    by simp
  show ?thesis
    by (simp add: 1 2)
qed

lemma eleven_of_twenty:
  "rnd (fmul (rnd (fdiv (Fin 11) (Fin 20))) (Fin 100)) = Fin (55 + 1 / 2 ^ 47)"
proof -
  define a :: real where "a = 4953959590107546 / 2 ^ 53"
  have "round_double (11 / 20) = Fin (real_of_int 4953959590107546 * 2 powi (- 1 - 52))"
    by (rule round_double_eval) (simp_all add: round_half_even_def)
  then have 1: "round_double (11 / 20) = Fin a"
    by (simp add: a_def)
  have "round_double (a * 100) = Fin (real_of_int 7740561859543041 * 2 powi (5 - 52))"
    by (rule round_double_eval) (simp_all add: a_def round_half_even_def)
  then have 2: "round_double (a * 100) = Fin (55 + 1 / 2 ^ 47)"
    by simp
  show ?thesis
    by (simp add: 1 2)
qed

text \<open>
  Claim C5, as amended.  The claim says that the rate is exactly one hundred times the
  number of rows meeting the threshold divided by the number of rows.  The script
  computes it in doubles: the quotient of the two counts is rounded, then multiplied by
  100 and rounded again (\<open>NaN\<close> on an empty data set).  On a data set with a row the
  result is within \<open>2\<^sup>-\<^sup>4\<^sup>5\<close> of the exact percentage; for three rows of five it is
  exactly 60.
\<close>

theorem achievement_rate_rounded:
  "latency_achievement tech_perf
     = rnd (fmul (rnd (fdiv (Fin (real (length (filter (\<lambda>r. network_latency_ms r \<le> 75) tech_perf))))
                            (Fin (real (length tech_perf))))) (Fin 100))
   \<and> fps_achievement tech_perf
     = rnd (fmul (rnd (fdiv (Fin (real (length (filter (\<lambda>r. 90 \<le> frame_rate_fps r) tech_perf))))
                            (Fin (real (length tech_perf))))) (Fin 100))
   \<and> (tech_perf \<noteq> [] \<longrightarrow>
        (\<exists>r. latency_achievement tech_perf = Fin r
            \<and> \<bar>r - 100 * real (length (filter (\<lambda>r. network_latency_ms r \<le> 75) tech_perf))
                       / real (length tech_perf)\<bar> \<le> 1 / 2 ^ 45)
      \<and> (\<exists>r. fps_achievement tech_perf = Fin r
            \<and> \<bar>r - 100 * real (length (filter (\<lambda>r. 90 \<le> frame_rate_fps r) tech_perf))
                       / real (length tech_perf)\<bar> \<le> 1 / 2 ^ 45))"
proof -
  have l: "latency_achievement tech_perf
     = rnd (fmul (rnd (fdiv (Fin (real (length (filter (\<lambda>r. network_latency_ms r \<le> 75) tech_perf))))
                            (Fin (real (length tech_perf))))) (Fin 100))"
    by (simp add: latency_achievement_def achievement_le_count column_def filter_map comp_def)
  have f: "fps_achievement tech_perf
     = rnd (fmul (rnd (fdiv (Fin (real (length (filter (\<lambda>r. 90 \<le> frame_rate_fps r) tech_perf))))
                            (Fin (real (length tech_perf))))) (Fin 100))"
    by (simp add: fps_achievement_def achievement_ge_count column_def filter_map comp_def)
  have "length (filter (\<lambda>r. network_latency_ms r \<le> 75) tech_perf) \<le> length tech_perf"
       "length (filter (\<lambda>r. 90 \<le> frame_rate_fps r) tech_perf) \<le> length tech_perf"
    by simp_all
  then have "tech_perf \<noteq> [] \<longrightarrow>
        (\<exists>r. latency_achievement tech_perf = Fin r
            \<and> \<bar>r - 100 * real (length (filter (\<lambda>r. network_latency_ms r \<le> 75) tech_perf))
                       / real (length tech_perf)\<bar> \<le> 1 / 2 ^ 45)
      \<and> (\<exists>r. fps_achievement tech_perf = Fin r
            \<and> \<bar>r - 100 * real (length (filter (\<lambda>r. 90 \<le> frame_rate_fps r) tech_perf))
                       / real (length tech_perf)\<bar> \<le> 1 / 2 ^ 45)"
    unfolding l f using percent_error by blast
  with l f show ?thesis
    by blast
qed

theorem achievement_rate_rounded_witness:
  "example_tech_perf \<noteq> []
   \<and> column network_latency_ms example_tech_perf = [70, 80, 75, 60, 90]
   \<and> length (filter (\<lambda>r. network_latency_ms r \<le> 75) example_tech_perf) = 3
   \<and> length example_tech_perf = 5
   \<and> latency_achievement example_tech_perf = Fin 60
   \<and> fps_achievement example_tech_perf = Fin 60"
proof -
  have "length (filter (\<lambda>r. network_latency_ms r \<le> 75) example_tech_perf) = 3"
       "length (filter (\<lambda>r. 90 \<le> frame_rate_fps r) example_tech_perf) = 3"
       "length example_tech_perf = 5"
    by (simp_all add: example_tech_perf_def)
  then show ?thesis
    using achievement_rate_rounded[of example_tech_perf]
    by (simp add: three_of_five[simplified]) (simp add: example_tech_perf_def column_def)
qed

text \<open>
  The claim fails for twenty latencies of which eleven are at most 75: the rate is the
  double next above 55, which prints as \<^verbatim>\<open>55.00000000000001\<close>, and not
  \<open>100 * 11 / 20 = 55\<close>.
\<close>

theorem achievement_rate_exact_counterexample:
  "achievement_le (replicate 11 70 @ replicate 9 80) 75 = Fin (55 + 1 / 2 ^ 47)
   \<and> (55 + 1 / 2 ^ 47 :: real) \<noteq> 100 * 11 / 20"
proof -
  have "length (filter (\<lambda>x. x \<le> 75) (replicate 11 70 @ replicate 9 (80 :: real))) = 11"
    by simp
  then show ?thesis
    by (simp add: achievement_le_count eleven_of_twenty[simplified])
qed

subsection \<open>Claim C6\<close>

text \<open>
  Claim C6.  For non-empty samples with a non-zero baseline mean, the percentage
  improvement is \<open>(mean baseline - mean wim) / mean baseline * 100\<close>; for the samples
  100, 110, 120 and 80, 85, 90 it is \<open>(110 - 85) / 110 * 100\<close>.
\<close>

theorem improvement_pct_formula:
  assumes "baseline \<noteq> []" and "wim \<noteq> []" and "sample_mean baseline \<noteq> 0"
  shows "improvement_pct baseline wim
           = Fin ((sample_mean baseline - sample_mean wim) / sample_mean baseline * 100)"
  using assms
  by (simp add: improvement_pct_def mean_Fin fsub_def of_pyint_def)

theorem improvement_pct_formula_witness:
  "[100, 110, 120 :: real] \<noteq> [] \<and> [80, 85, 90 :: real] \<noteq> []
   \<and> sample_mean [100, 110, 120] = 110 \<and> sample_mean [80, 85, 90] = 85
   \<and> improvement_pct [100, 110, 120] [80, 85, 90] = Fin ((110 - 85) / 110 * 100)"
proof -
  have m: "sample_mean [100, 110, 120] = 110" "sample_mean [80, 85, 90] = 85"
    by (simp_all add: sample_mean_def)
  show ?thesis
    using improvement_pct_formula[of "[100, 110, 120]" "[80, 85, 90]"]
    by (simp add: m)
qed

subsection \<open>Claim C7\<close>

lemma cohens_d_swap: "cohens_d wim baseline = fneg (cohens_d baseline wim)"
  unfolding cohens_d_def
  by (simp add: fsub_swap[of "mean wim"] fdiv_fneg_left
      fadd_commute[of "fmul (of_pyint (len wim - 1)) (fsquare (std wim))"]
      add.commute[of "len wim"])

lemma ttest_ind_swap:
  "ttest_ind b a = (fneg (fst (ttest_ind a b)), snd (ttest_ind a b))"
  unfolding ttest_ind_def Let_def
  by (simp add: fsub_swap[of "mean b"] fdiv_fneg_left fabs_fneg
      fadd_commute[of "fmul (of_pyint (len b - 1)) (pooled_term_variance b)"]
      add.commute[of "len b"] fadd_commute[of "fdiv (Fin 1) (of_pyint (len b))"])

text \<open>
  Claim C7.  Exchanging the two samples negates the t statistic and Cohen's \<open>d\<close> and
  leaves their magnitudes and the p-value as they were.  The step is a function of its two
  samples, so the same input gives the same output.
\<close>

theorem swap_labels:
  "\<exists>t p d. hypothesis_test baseline wim = Inr (t, p, d)
     \<and> hypothesis_test wim baseline = Inr (fneg t, p, fneg d)
     \<and> fabs (fneg t) = fabs t \<and> fabs (fneg d) = fabs d"
  by (simp add: hypothesis_test_returns ttest_ind_swap[of wim baseline] cohens_d_swap[of wim baseline]
      fabs_fneg split: prod.splits)

subsection \<open>Claim C8\<close>

lemma cs_step:
  fixes a b S A B :: real
  assumes "S\<^sup>2 \<le> A * B" "0 \<le> A" "0 \<le> B"
  shows "(a * b + S)\<^sup>2 \<le> (a\<^sup>2 + A) * (b\<^sup>2 + B)"
proof -
  have "(2 * a * b * S)\<^sup>2 = 4 * (a\<^sup>2 * b\<^sup>2) * S\<^sup>2"
    by (simp add: power2_eq_square)
  also have "\<dots> \<le> 4 * (a\<^sup>2 * b\<^sup>2) * (A * B)"
    using assms(1) by (intro mult_left_mono) simp_all
  also have "\<dots> \<le> (a\<^sup>2 * B + b\<^sup>2 * A)\<^sup>2"
  proof -
    have "0 \<le> (a\<^sup>2 * B - b\<^sup>2 * A)\<^sup>2" by simp
    then show ?thesis by (simp add: power2_eq_square algebra_simps)
  qed
  finally have "(2 * a * b * S)\<^sup>2 \<le> (a\<^sup>2 * B + b\<^sup>2 * A)\<^sup>2" .
  moreover have "0 \<le> a\<^sup>2 * B + b\<^sup>2 * A" using assms by simp
  ultimately have "2 * a * b * S \<le> a\<^sup>2 * B + b\<^sup>2 * A"
    by (rule power2_le_imp_le)
  with assms(1) show ?thesis
    by (simp add: power2_eq_square algebra_simps)
qed

lemma cauchy_schwarz_list:
  "(\<Sum>(a, b)\<leftarrow>ps. a * b :: real)\<^sup>2 \<le> (\<Sum>(a, b)\<leftarrow>ps. a\<^sup>2) * (\<Sum>(a, b)\<leftarrow>ps. b\<^sup>2)"
proof (induction ps)
  case Nil
  then show ?case by simp
next
  case (Cons p ps)
  obtain a b where p: "p = (a, b)" by (cases p)
  have A: "0 \<le> (\<Sum>(a, b)\<leftarrow>ps. a\<^sup>2 :: real)"
    by (intro sum_list_nonneg) auto
  have B: "0 \<le> (\<Sum>(a, b)\<leftarrow>ps. b\<^sup>2 :: real)"
    by (intro sum_list_nonneg) auto
  show ?case
    using cs_step[OF Cons.IH A B, of a b] by (simp add: p)
qed

lemma not_constant_pos:
  assumes "\<not> constant_column xs"
  shows "0 < (\<Sum>z\<leftarrow>xs. (z - m)\<^sup>2)" and "2 \<le> length xs"
proof -
  from assms obtain x y where xy: "x \<in> set xs" "y \<in> set xs" "x \<noteq> y"
    by (auto simp: constant_column_def)
  show "0 < (\<Sum>z\<leftarrow>xs. (z - m)\<^sup>2)" using xy by (rule sum_sq_dev_pos)
  show "2 \<le> length xs" using xy by (rule two_distinct_length)
qed

lemma sum_zip_fst:
  "length xs = length ys \<Longrightarrow> (\<Sum>(x, y)\<leftarrow>zip xs ys. f x) = (\<Sum>x\<leftarrow>xs. f x :: real)"
  by (induction xs ys rule: list_induct2) auto

lemma sum_zip_snd:
  "length xs = length ys \<Longrightarrow> (\<Sum>(x, y)\<leftarrow>zip xs ys. g y) = (\<Sum>y\<leftarrow>ys. g y :: real)"
  by (induction xs ys rule: list_induct2) auto

lemma cauchy_schwarz_zip:
  assumes "length xs = length ys"
  shows "(\<Sum>(x, y)\<leftarrow>zip xs ys. f x * g y :: real)\<^sup>2 \<le> (\<Sum>x\<leftarrow>xs. (f x)\<^sup>2) * (\<Sum>y\<leftarrow>ys. (g y)\<^sup>2)"
proof -
  have "(\<Sum>(x, y)\<leftarrow>zip xs ys. f x * g y) = (\<Sum>(a, b)\<leftarrow>map (\<lambda>(x, y). (f x, g y)) (zip xs ys). a * b)"
    by (simp add: comp_def case_prod_unfold)
  moreover have "(\<Sum>(a, b)\<leftarrow>map (\<lambda>(x, y). (f x, g y)) (zip xs ys). a\<^sup>2) = (\<Sum>x\<leftarrow>xs. (f x)\<^sup>2)"
    using sum_zip_fst[OF assms, of "\<lambda>x. (f x)\<^sup>2"] by (simp add: comp_def case_prod_unfold)
  moreover have "(\<Sum>(a, b)\<leftarrow>map (\<lambda>(x, y). (f x, g y)) (zip xs ys). b\<^sup>2) = (\<Sum>y\<leftarrow>ys. (g y)\<^sup>2)"
    using sum_zip_snd[OF assms, of "\<lambda>y. (g y)\<^sup>2"] by (simp add: comp_def case_prod_unfold)
  ultimately show ?thesis
    using cauchy_schwarz_list[of "map (\<lambda>(x, y). (f x, g y)) (zip xs ys)"] by simp
qed

lemma cov_Fin:
  "2 \<le> length xs \<Longrightarrow>
   cov xs ys = Fin ((\<Sum>(x, y)\<leftarrow>zip xs ys. (x - sample_mean xs) * (y - sample_mean ys)) / (real (length xs) - 1))"
  by (simp add: cov_def sample_mean_def)

lemma cov_self_Fin:
  "2 \<le> length xs \<Longrightarrow> cov xs xs = Fin ((\<Sum>x\<leftarrow>xs. (x - sample_mean xs)\<^sup>2) / (real (length xs) - 1))"
  by (simp add: cov_Fin zip_same_conv_map comp_def power2_eq_square)

lemma fdiv_fsqrt_pos: "0 < v \<Longrightarrow> fdiv (Fin a) (fsqrt (Fin v)) = Fin (a / sqrt v)"
  by simp

lemma fclip_unit: "\<bar>q\<bar> \<le> 1 \<Longrightarrow> fclip (Fin q) = Fin q"
  by auto

lemma corr_pearson:
  assumes len: "length xs = length ys" and nx: "\<not> constant_column xs" and ny: "\<not> constant_column ys"
  shows "corr xs ys = Fin (pearson_r xs ys)"
proof -
  define n where "n = real (length xs) - 1"
  define c where "c = (\<Sum>(x, y)\<leftarrow>zip xs ys. (x - sample_mean xs) * (y - sample_mean ys))"
  define sx where "sx = (\<Sum>x\<leftarrow>xs. (x - sample_mean xs)\<^sup>2)"
  define sy where "sy = (\<Sum>y\<leftarrow>ys. (y - sample_mean ys)\<^sup>2)"
  have lx: "2 \<le> length xs" and ly: "2 \<le> length ys"
    using not_constant_pos(2)[OF nx] not_constant_pos(2)[OF ny] by auto
  have n: "0 < n" using lx by (simp add: n_def)
  have sx: "0 < sx" unfolding sx_def using nx by (rule not_constant_pos(1))
  have sy: "0 < sy" unfolding sy_def using ny by (rule not_constant_pos(1))
  have cs: "c\<^sup>2 \<le> sx * sy"
    unfolding c_def sx_def sy_def using len by (rule cauchy_schwarz_zip)
  have r: "c / n / sqrt (sx / n) / sqrt (sy / n) = c / sqrt (sx * sy)"
    using n sx sy by (simp add: real_sqrt_divide real_sqrt_mult field_simps)
  have "\<bar>c\<bar> \<le> sqrt (sx * sy)"
    using cs by (metis real_sqrt_abs real_sqrt_le_iff)
  then have b: "\<bar>c / sqrt (sx * sy)\<bar> \<le> 1"
    using sx sy by (simp add: divide_le_eq)
  have cxy: "cov xs ys = Fin (c / n)"
    using lx by (simp add: cov_Fin c_def n_def)
  have cxx: "cov xs xs = Fin (sx / n)"
    using lx by (simp add: cov_self_Fin sx_def n_def)
  have cyy: "cov ys ys = Fin (sy / n)"
    using ly len by (simp add: cov_self_Fin sy_def n_def)
  have pos: "0 < sx / n" "0 < sy / n"
    using n sx sy by simp_all
  have "xs \<noteq> []" using lx by auto
  then have "corr xs ys = fclip (fdiv (fdiv (Fin (c / n)) (fsqrt (Fin (sx / n)))) (fsqrt (Fin (sy / n))))"
    by (simp only: corr_def cxy cxx cyy if_False)
  also have "\<dots> = fclip (Fin (c / n / sqrt (sx / n) / sqrt (sy / n)))"
    by (simp only: fdiv_fsqrt_pos[OF pos(1)] fdiv_fsqrt_pos[OF pos(2)])
  also have "\<dots> = Fin (c / sqrt (sx * sy))"
    by (simp only: r fclip_unit[OF b])
  finally show ?thesis
    by (simp add: pearson_r_def c_def sx_def sy_def)
qed

lemma pearson_self:
  assumes "\<not> constant_column xs"
  shows "pearson_r xs xs = 1"
proof -
  have "0 < (\<Sum>x\<leftarrow>xs. (x - sample_mean xs)\<^sup>2)" using assms by (rule not_constant_pos(1))
  then show ?thesis
    by (simp add: pearson_r_def zip_same_conv_map comp_def flip: power2_eq_square)
qed

text \<open>
  Claim C8.  The three correlations are taken over the temperature column and a response
  column of all rows of the data set, with no grouping; the coefficient computed is
  Pearson's for columns that are not constant, and the correlation of a column that is
  not constant with itself is 1.
\<close>

theorem correlation_pearson:
  "temp_fps_corr tech_perf = corr (map headset_temp_c tech_perf) (map frame_rate_fps tech_perf)
   \<and> temp_calib_corr tech_perf
       = corr (map headset_temp_c tech_perf) (map calibration_error_mm tech_perf)
   \<and> temp_latency_corr tech_perf
       = corr (map headset_temp_c tech_perf) (map network_latency_ms tech_perf)
   \<and> (length xs = length ys \<and> \<not> constant_column xs \<and> \<not> constant_column ys
        \<longrightarrow> corr xs ys = Fin (pearson_r xs ys))
   \<and> (\<not> constant_column xs \<longrightarrow> corr xs xs = Fin 1)"
  by (simp add: temp_fps_corr_def temp_calib_corr_def temp_latency_corr_def column_def
      corr_pearson pearson_self)

theorem correlation_pearson_witness:
  "length [30, 32 :: real] = length [90, 88 :: real]
   \<and> \<not> constant_column [30, 32] \<and> \<not> constant_column [90, 88]
   \<and> corr [30, 32] [90, 88] = Fin (- 1)
   \<and> corr [30, 32] [30, 32] = Fin 1
   \<and> temp_fps_corr example_tech_perf = corr [32, 30, 34, 31, 31] [89, 91, 88, 90, 90]"
proof -
  have c: "\<not> constant_column [30, 32]" "\<not> constant_column [90, 88]"
    by (simp_all add: constant_column_def)
  have p: "pearson_r [30, 32] [90, 88] = - 1"
    by (simp add: pearson_r_def sample_mean_def)
  show ?thesis
    using correlation_pearson[of example_tech_perf "[30, 32]" "[90, 88]"] c p
    by (simp add: example_tech_perf_def)
qed

subsection \<open>Claim C9\<close>

text \<open>
  A statement keeps the frames when every object that existed before it has the same
  contents after it and the three frame variables hold the same references.  Every
  library call the script makes keeps the frames, and so does every composition of such
  calls; the in-place sort, which the script does not use, does not.
\<close>

named_theorems keeps_intros

lemma frames_kept_refl: "frames_kept s s"
  by (simp add: frames_kept_def)

lemma frames_kept_trans: "frames_kept s s' \<Longrightarrow> frames_kept s' s'' \<Longrightarrow> frames_kept s s''"
  by (auto simp: frames_kept_def)

lemma keeps_ret [keeps_intros]: "keeps (ret x)"
  by (simp add: keeps_def ret_def frames_kept_refl)

lemma keeps_lift [keeps_intros]: "keeps (lift r)"
  by (simp add: keeps_def lift_def frames_kept_refl)

lemma keeps_read_var [keeps_intros]: "keeps (read_var v)"
  by (simp add: keeps_def read_var_def frames_kept_refl split: option.splits)

lemma keeps_emit [keeps_intros]: "keeps (emit x)"
  by (simp add: keeps_def emit_def frames_kept_def)

lemma keeps_savefig [keeps_intros]: "keeps (savefig file plots)"
  by (simp add: keeps_def savefig_def frames_kept_def)

lemma keeps_alloc [keeps_intros]: "keeps (alloc f)"
  by (simp add: keeps_def alloc_def frames_kept_def)

lemma keeps_tech_rows [keeps_intros]: "keeps (tech_rows a)"
  by (simp add: keeps_def tech_rows_def frames_kept_refl split: option.splits frame.splits)

lemma keeps_collab_rows [keeps_intros]: "keeps (collab_rows a)"
  by (simp add: keeps_def collab_rows_def frames_kept_refl split: option.splits frame.splits)

lemma keeps_calib_rows [keeps_intros]: "keeps (calib_rows a)"
  by (simp add: keeps_def calib_rows_def frames_kept_refl split: option.splits frame.splits)

lemma keeps_summary_rows [keeps_intros]: "keeps (summary_rows a)"
  by (simp add: keeps_def summary_rows_def frames_kept_refl split: option.splits frame.splits)

lemma keeps_setters [keeps_intros]:
  "keeps (set_initial_calib xs)" "keeps (set_baseline_times xs)" "keeps (set_wim_times xs)"
  "keeps (set_p_value p)" "keeps (set_temp_fps_corr r)" "keeps (set_temp_calib_corr r)"
  by (simp_all add: keeps_def frames_kept_def set_initial_calib_def set_baseline_times_def
      set_wim_times_def set_p_value_def set_temp_fps_corr_def set_temp_calib_corr_def)

lemma keeps_then_do [keeps_intros]:
  assumes "keeps m" and "\<And>x. keeps (f x)"
  shows "keeps (then_do m f)"
proof -
  have "frames_kept s (snd (then_do m f s))" for s
  proof (cases "m s")
    case (Pair r s')
    have 1: "frames_kept s s'"
      using assms(1) Pair by (auto simp: keeps_def dest: spec[of _ s])
    show ?thesis
    proof (cases r)
      case (Inl e)
      then show ?thesis using 1 Pair by (simp add: then_do_def)
    next
      case (Inr x)
      have "frames_kept s' (snd (f x s'))"
        using assms(2)[of x] by (simp add: keeps_def)
      with 1 show ?thesis
        using Pair Inr by (auto simp: then_do_def intro: frames_kept_trans)
    qed
  qed
  then show ?thesis by (simp add: keeps_def)
qed

lemma keeps_if [keeps_intros]: "keeps m \<Longrightarrow> keeps n \<Longrightarrow> keeps (if c then m else n)"
  by simp

lemma keeps_case_prod [keeps_intros]: "(\<And>a b. keeps (f a b)) \<Longrightarrow> keeps (case p of (a, b) \<Rightarrow> f a b)"
  by (cases p) simp

lemma keeps_do_all: "(\<And>m. m \<in> set ms \<Longrightarrow> keeps m) \<Longrightarrow> keeps (do_all ms)"
  by (induction ms) (auto intro: keeps_intros)

lemma keeps_for_each [keeps_intros]: "(\<And>x. keeps (body x)) \<Longrightarrow> keeps (for_each xs body)"
  by (induction xs) (auto intro: keeps_intros)

lemma keeps_collect [keeps_intros]: "(\<And>x. keeps (f x)) \<Longrightarrow> keeps (collect xs f)"
  by (induction xs) (auto intro!: keeps_intros)

lemma keeps_deref [keeps_intros]: "keeps (deref r)"
  by (cases r) (simp_all add: deref_def keeps_intros)

lemma keeps_polyfit_line [keeps_intros]: "keeps (polyfit_line xs ys)"
  by (simp add: polyfit_line_def keeps_intros)

lemma keeps_mask [keeps_intros]:
  "keeps (mask_tech a keep_t)" "keeps (mask_collab a keep_c)" "keeps (mask_calib a keep_k)"
  unfolding mask_tech_def mask_collab_def mask_calib_def by (intro keeps_intros)+

lemma keeps_sort_values_frame [keeps_intros]: "keeps (sort_values_frame a c False)"
  unfolding sort_values_frame_def by (simp add: keeps_intros)

lemma keeps_session_frame [keeps_intros]: "keeps (session_frame tech session)"
  unfolding session_frame_def by (intro keeps_intros)

lemma keeps_columns [keeps_intros]:
  "keeps (calib_at calib minute)" "keeps (collab_column collab interface c)"
  unfolding calib_at_def collab_column_def by (intro keeps_intros)+

lemma keeps_lines [keeps_intros]:
  "keeps (scenario_line tech sc)" "keeps (session_line col with_duration session)"
  unfolding scenario_line_def session_line_def by (intro keeps_intros)+

lemma keeps_report_sizes: "keeps report_sizes"
  unfolding report_sizes_def by (simp add: keeps_intros)

lemma keeps_technical_benchmarks: "keeps technical_benchmarks"
  unfolding technical_benchmarks_def by (simp add: keeps_intros)

lemma keeps_collaboration_effectiveness: "keeps collaboration_effectiveness"
  unfolding collaboration_effectiveness_def by (simp add: keeps_intros)

lemma keeps_stability_over_time: "keeps stability_over_time"
  unfolding stability_over_time_def by (intro keeps_intros)

lemma keeps_correlation_analysis: "keeps correlation_analysis"
  unfolding correlation_analysis_def by (simp add: keeps_intros)

lemma keeps_figures: "keeps figure_1" "keeps figure_2" "keeps figure_3" "keeps figure_4"
  unfolding figure_1_def figure_2_def figure_3_def figure_4_def session_figure_def
  by (intro keeps_intros)+

lemma keeps_summary_section: "keeps summary_section"
  unfolding summary_section_def by (intro keeps_intros)

lemma keeps_script_steps: "m \<in> set script_steps \<Longrightarrow> keeps m"
  using keeps_report_sizes keeps_technical_benchmarks keeps_collaboration_effectiveness
    keeps_stability_over_time keeps_correlation_analysis keeps_figures keeps_summary_section
  by (auto simp: script_steps_def)

lemma load_state:
  "load tech_csv collab_csv calib_csv start_state = (Inr (), s0) \<Longrightarrow>
   next_addr s0 = 3 \<and> tech_perf_ref s0 = Some 0 \<and> collab_perf_ref s0 = Some 1
   \<and> calib_acc_ref s0 = Some 2 \<and> heap s0 0 = Some (Tech_frame tech_csv)
   \<and> heap s0 1 = Some (Collab_frame collab_csv) \<and> heap s0 2 = Some (Calib_frame calib_csv)"
  by (auto simp: load_def then_do_def alloc_def set_tech_perf_def set_collab_perf_def
      set_calib_acc_def start_state_def)

lemma load_returns: "fst (load tech_csv collab_csv calib_csv start_state) = Inr ()"
  by (simp add: load_def then_do_def alloc_def set_tech_perf_def set_collab_perf_def
      set_calib_acc_def start_state_def)

lemma session_frame_rows:
  assumes "heap s tech = Some (Tech_frame tp)"
  shows "fst (session_frame tech session s) = Inr (session_data tp session)"
  using assms
  by (simp add: session_frame_def mask_tech_def sort_values_frame_def deref_def then_do_def
      tech_rows_def alloc_def ret_def session_data_def)

lemma inplace_sort_overwrites:
  "heap s a = Some (Tech_frame rows) \<Longrightarrow>
   heap (snd (sort_values_frame a c True s)) a = Some (Tech_frame (sort_values c rows))"
  by (simp add: sort_values_frame_def then_do_def tech_rows_def overwrite_def ret_def)

text \<open>
  Claim C9.  After the load, and after any number of the statements that follow it,
  whether or not the run has ended in an exception, the three frame variables refer to
  frames that hold exactly the rows that were loaded.
\<close>

theorem frames_read_only:
  "\<exists>a b c. tech_perf_ref (snd (run_script tech_csv collab_csv calib_csv k)) = Some a
     \<and> collab_perf_ref (snd (run_script tech_csv collab_csv calib_csv k)) = Some b
     \<and> calib_acc_ref (snd (run_script tech_csv collab_csv calib_csv k)) = Some c
     \<and> heap (snd (run_script tech_csv collab_csv calib_csv k)) a = Some (Tech_frame tech_csv)
     \<and> heap (snd (run_script tech_csv collab_csv calib_csv k)) b = Some (Collab_frame collab_csv)
     \<and> heap (snd (run_script tech_csv collab_csv calib_csv k)) c = Some (Calib_frame calib_csv)"
proof -
  obtain s0 where l: "load tech_csv collab_csv calib_csv start_state = (Inr (), s0)"
    using load_returns[of tech_csv collab_csv calib_csv] by (metis prod.collapse)
  note s0 = load_state[OF l]
  have "keeps (do_all (take k script_steps))"
    by (rule keeps_do_all) (auto dest: in_set_takeD intro: keeps_script_steps)
  then have "frames_kept s0 (snd (do_all (take k script_steps) s0))"
    by (simp add: keeps_def)
  moreover have "run_script tech_csv collab_csv calib_csv k = do_all (take k script_steps) s0"
    by (simp add: run_script_def then_do_def l)
  ultimately show ?thesis
    using s0 by (simp add: frames_kept_def)
qed

lemmas run_simps =
  run_script_def script_steps_def load_def then_do_def alloc_def set_tech_perf_def
  set_collab_perf_def set_calib_acc_def start_state_def report_sizes_def read_var_def
  tech_rows_def collab_rows_def calib_rows_def emit_def ret_def lift_def
  technical_benchmarks_def calib_at_def mask_calib_def set_initial_calib_def
  collaboration_effectiveness_def collab_column_def mask_collab_def set_baseline_times_def
  set_wim_times_def set_p_value_def hypothesis_test_returns Let_def
  stability_over_time_def session_frame_def mask_tech_def sort_values_frame_def deref_def
  sorted_unique_def column_def select_rows_def sort_values_def session_metrics_def iloc_def len_def
  correlation_analysis_def set_temp_fps_corr_def set_temp_calib_corr_def
  figure_1_def scenario_line_def savefig_def figure_2_def figure_3_def session_figure_def
  session_line_def figure_4_def polyfit_line_def summary_section_def summary_rows_def
  example_tech_perf_def example_collab_perf_def example_calib_acc_def

lemma example_run_returns:
  "fst (run_script example_tech_perf example_collab_perf example_calib_acc 10) = Inr ()"
  by (simp add: run_simps)

theorem frames_read_only_witness:
  "fst (run_script example_tech_perf example_collab_perf example_calib_acc 10) = Inr ()
   \<and> (\<exists>a b c.
        tech_perf_ref (snd (run_script example_tech_perf example_collab_perf example_calib_acc 10))
          = Some a
      \<and> collab_perf_ref (snd (run_script example_tech_perf example_collab_perf example_calib_acc 10))
          = Some b
      \<and> calib_acc_ref (snd (run_script example_tech_perf example_collab_perf example_calib_acc 10))
          = Some c
      \<and> heap (snd (run_script example_tech_perf example_collab_perf example_calib_acc 10)) a
          = Some (Tech_frame example_tech_perf)
      \<and> heap (snd (run_script example_tech_perf example_collab_perf example_calib_acc 10)) b
          = Some (Collab_frame example_collab_perf)
      \<and> heap (snd (run_script example_tech_perf example_collab_perf example_calib_acc 10)) c
          = Some (Calib_frame example_calib_acc))"
  using example_run_returns
    frames_read_only[of example_tech_perf example_collab_perf example_calib_acc 10]
  by blast

subsection \<open>Claim C10\<close>

text \<open>
  Claim C10.  The \<open>Status\<close> column of the summary table is the same five strings, a check
  mark followed by \<open>PASS\<close>, whatever the three data sets are: no target is compared with
  an achieved value.
\<close>

theorem summary_status_constant:
  "status (summary_table tech_perf collab_perf calib_acc) = replicate 5 (check_mark @ '' PASS'')
   \<and> status (summary_data init_calib tech_perf p_val) = replicate 5 (check_mark @ '' PASS'')
   \<and> status (summary_table tech_perf collab_perf calib_acc)
       = status (summary_table tech_perf' collab_perf' calib_acc')"
  by (simp add: summary_table_def summary_data_def numeral_eq_Suc)

end
